theory Spec2Isabelle
  imports Complex_Main "HOL-Library.Word" "HOL-Library.Monad_Syntax"
begin

section \<open>JavaScript values\<close>

text \<open>
  A JavaScript number is a double. The model keeps the special values of IEEE arithmetic
  (\<open>Infinity\<close>, \<open>-Infinity\<close>, \<open>NaN\<close>) and takes the finite values as exact reals:
  rounding to 53 bits and overflow are not modelled, and the two zeros are one. Every
  divisor in \<open>exportBanner\<close> is a width, a height, a ratio of two of them or a positive
  constant, so a negative zero never decides a sign there.
\<close>

datatype jsnum = Num real | PInf | NInf | NaN

fun jneg :: "jsnum \<Rightarrow> jsnum" where
  "jneg (Num a) = Num (- a)"
| "jneg PInf = NInf"
| "jneg NInf = PInf"
| "jneg NaN = NaN"

fun jadd :: "jsnum \<Rightarrow> jsnum \<Rightarrow> jsnum" where
  "jadd (Num a) (Num b) = Num (a + b)"
| "jadd NaN _ = NaN"
| "jadd _ NaN = NaN"
| "jadd PInf NInf = NaN"
| "jadd NInf PInf = NaN"
| "jadd PInf _ = PInf"
| "jadd NInf _ = NInf"
| "jadd _ PInf = PInf"
| "jadd _ NInf = NInf"

definition jsub :: "jsnum \<Rightarrow> jsnum \<Rightarrow> jsnum" where
  "jsub a b = jadd a (jneg b)"

text \<open>The sign of an infinite product or quotient: \<open>NaN\<close> when the finite factor is zero.\<close>

definition signed_inf :: "real \<Rightarrow> jsnum" where
  "signed_inf s = (if 0 < s then PInf else if s < 0 then NInf else NaN)"

fun jmul :: "jsnum \<Rightarrow> jsnum \<Rightarrow> jsnum" where
  "jmul (Num a) (Num b) = Num (a * b)"
| "jmul NaN _ = NaN"
| "jmul _ NaN = NaN"
| "jmul (Num a) PInf = signed_inf a"
| "jmul (Num a) NInf = signed_inf (- a)"
| "jmul PInf (Num b) = signed_inf b"
| "jmul NInf (Num b) = signed_inf (- b)"
| "jmul PInf PInf = PInf"
| "jmul NInf NInf = PInf"
| "jmul PInf NInf = NInf"
| "jmul NInf PInf = NInf"

fun jdiv :: "jsnum \<Rightarrow> jsnum \<Rightarrow> jsnum" where
  "jdiv (Num a) (Num b) = (if b = 0 then signed_inf a else Num (a / b))"
| "jdiv NaN _ = NaN"
| "jdiv _ NaN = NaN"
| "jdiv (Num a) PInf = Num 0"
| "jdiv (Num a) NInf = Num 0"
| "jdiv PInf (Num b) = (if 0 \<le> b then PInf else NInf)"
| "jdiv NInf (Num b) = (if 0 \<le> b then NInf else PInf)"
| "jdiv PInf _ = NaN"
| "jdiv NInf _ = NaN"

text \<open>\<open>a < b\<close> and \<open>a > b\<close>: false as soon as one side is \<open>NaN\<close>.\<close>

fun jlt :: "jsnum \<Rightarrow> jsnum \<Rightarrow> bool" where
  "jlt (Num a) (Num b) = (a < b)"
| "jlt NaN _ = False"
| "jlt _ NaN = False"
| "jlt _ NInf = False"
| "jlt PInf _ = False"
| "jlt NInf _ = True"
| "jlt _ PInf = True"

definition jgt :: "jsnum \<Rightarrow> jsnum \<Rightarrow> bool" where
  "jgt a b = jlt b a"

text \<open>\<open>Math.round\<close> rounds to the nearest integer, a half towards \<open>+Infinity\<close>.\<close>

fun Math_round :: "jsnum \<Rightarrow> jsnum" where
  "Math_round (Num a) = Num (of_int \<lfloor>a + 1 / 2\<rfloor>)"
| "Math_round x = x"

fun Math_ceil :: "jsnum \<Rightarrow> jsnum" where
  "Math_ceil (Num a) = Num (of_int \<lceil>a\<rceil>)"
| "Math_ceil x = x"

fun Math_max :: "jsnum \<Rightarrow> jsnum \<Rightarrow> jsnum" where
  "Math_max NaN _ = NaN"
| "Math_max _ NaN = NaN"
| "Math_max a b = (if jlt a b then b else a)"

fun Math_min :: "jsnum \<Rightarrow> jsnum \<Rightarrow> jsnum" where
  "Math_min NaN _ = NaN"
| "Math_min _ NaN = NaN"
| "Math_min a b = (if jlt b a then b else a)"

text \<open>
  The two optional arguments \<open>fixWidth\<close> and \<open>fixHeight\<close> are documented as
  \<open>number|null\<close>; an argument left out is \<open>undefined\<close>. \<open>truthy\<close> is the test that
  \<open>if\<close>, \<open>&&\<close> and \<open>||\<close> apply, \<open>ToNumber\<close> the conversion that arithmetic and a
  canvas size apply.
\<close>

datatype jsval = Null | Undefined | Number jsnum

fun truthy :: "jsval \<Rightarrow> bool" where
  "truthy Null = False"
| "truthy Undefined = False"
| "truthy (Number (Num a)) = (a \<noteq> 0)"
| "truthy (Number NaN) = False"
| "truthy (Number _) = True"

fun ToNumber :: "jsval \<Rightarrow> jsnum" where
  "ToNumber Null = Num 0"
| "ToNumber Undefined = NaN"
| "ToNumber (Number n) = n"

text \<open>\<open>a || b\<close> is \<open>a\<close> when \<open>a\<close> is truthy and \<open>b\<close> otherwise.\<close>

definition js_or :: "jsval \<Rightarrow> jsval \<Rightarrow> jsval" where
  "js_or a b = (if truthy a then a else b)"

definition js_and :: "jsval \<Rightarrow> jsval \<Rightarrow> jsval" where
  "js_and a b = (if truthy a then b else a)"

section \<open>Geometry\<close>

text \<open>The \<open>DOMRect\<close> that \<open>getBoundingClientRect\<close> returns.\<close>

record rect =
  rect_left :: jsnum
  rect_top :: jsnum
  rect_width :: jsnum
  rect_height :: jsnum

text \<open>
  \<open>src/js/export.js\<close>, lines 66 to 92: the two aspect ratios and the export size
  \<open>(exportWidth, exportHeight)\<close>. The natural size of an image element is a pair of
  unsigned integers.
\<close>

definition exportSize :: "rect \<Rightarrow> nat \<Rightarrow> nat \<Rightarrow> jsval \<Rightarrow> jsval \<Rightarrow> jsnum \<times> jsnum" where
  "exportSize previewRect imgNaturalWidth imgNaturalHeight fixWidth fixHeight =
     (let imgAspectRatio = jdiv (Num (real imgNaturalWidth)) (Num (real imgNaturalHeight));
          previewAspectRatio = jdiv (rect_width previewRect) (rect_height previewRect)
      in if truthy (js_and fixWidth fixHeight) then
           (ToNumber fixWidth, ToNumber fixHeight)
         else if truthy (js_or fixWidth fixHeight) then
           (if jgt previewAspectRatio imgAspectRatio then
              (Num (real imgNaturalWidth),
               Math_round (jdiv (Num (real imgNaturalWidth)) previewAspectRatio))
            else
              (Math_round (jmul (Num (real imgNaturalHeight)) previewAspectRatio),
               Num (real imgNaturalHeight)))
         else
           (Num (real imgNaturalWidth), Num (real imgNaturalHeight)))"

text \<open>
  \<open>src/unnamed/part_000\<close>, lines 22 to 42: the target size
  \<open>(targetWidth, targetHeight)\<close>; the aspect ratios are computed inside the second
  branch only.
\<close>

definition targetSize :: "rect \<Rightarrow> nat \<Rightarrow> nat \<Rightarrow> jsval \<Rightarrow> jsval \<Rightarrow> jsnum \<times> jsnum" where
  "targetSize currentRect imgNaturalWidth imgNaturalHeight fixWidth fixHeight =
     (if truthy (js_and fixWidth fixHeight) then
        (ToNumber fixWidth, ToNumber fixHeight)
      else if truthy (js_or fixWidth fixHeight) then
        (let previewAspectRatio = jdiv (rect_width currentRect) (rect_height currentRect);
             imgAspectRatio = jdiv (Num (real imgNaturalWidth)) (Num (real imgNaturalHeight))
         in if jgt previewAspectRatio imgAspectRatio then
              (Num (real imgNaturalWidth),
               Math_round (jdiv (Num (real imgNaturalWidth)) previewAspectRatio))
            else
              (Math_round (jmul (Num (real imgNaturalHeight)) previewAspectRatio),
               Num (real imgNaturalHeight)))
      else
        (Num (real imgNaturalWidth), Num (real imgNaturalHeight)))"

section \<open>Strings, bytes and the trace of an export\<close>

text \<open>
  A JavaScript string is a sequence of UTF-16 code units. \<open>js\<close> turns an ASCII literal
  of the source into one.
\<close>

type_synonym jsstring = "nat list"

definition js :: "string \<Rightarrow> jsstring" where
  "js s = map of_char s"

text \<open>A non-empty string is truthy; \<open>a || b\<close> on two strings.\<close>

definition str_or :: "jsstring \<Rightarrow> jsstring \<Rightarrow> jsstring" where
  "str_or a b = (if a \<noteq> [] then a else b)"

text \<open>
  The white space of \<open>\s\<close> and of \<open>trim\<close> (tab, line feed, vertical tab, form feed,
  carriage return, space, no-break space, the Unicode space separators, the two line
  separators and the byte order mark), and the digits of \<open>\d\<close>.
\<close>

definition isSpace :: "nat \<Rightarrow> bool" where
  "isSpace c = (c \<in> {9, 10, 11, 12, 13, 32, 160, 5760, 8232, 8233, 8239, 8287, 12288, 65279}
                \<or> (8192 \<le> c \<and> c \<le> 8202))"

definition isDigit :: "nat \<Rightarrow> bool" where
  "isDigit c = (48 \<le> c \<and> c \<le> 57)"

definition trim :: "jsstring \<Rightarrow> jsstring" where
  "trim s = rev (dropWhile isSpace (rev (dropWhile isSpace s)))"

text \<open>
  A byte of a \<open>Uint8ClampedArray\<close>. Storing a number converts it by \<open>ToUint8Clamp\<close>:
  \<open>NaN\<close> is 0, the value is clamped to 0..255 and rounded to the nearest integer, a
  half to the even one.
\<close>

type_synonym byte = "8 word"

fun ToUint8Clamp :: "jsnum \<Rightarrow> byte" where
  "ToUint8Clamp NaN = 0"
| "ToUint8Clamp PInf = 255"
| "ToUint8Clamp NInf = 0"
| "ToUint8Clamp (Num x) =
     (let clamped = min (max x 0) 255; f = \<lfloor>clamped\<rfloor>
      in of_int (if clamped < of_int f + 1 / 2 then f
                 else if of_int f + 1 / 2 < clamped then f + 1
                 else if even f then f else f + 1))"

declare ToUint8Clamp.simps(4) [simp del]

text \<open>
  What the function does to its surroundings is a list of events, in program order:
  \<open>Bind x o m args\<close> is \<open>const x = o.m(args)\<close> (with \<open>new\<close> for a constructor),
  \<open>Assign o p v\<close> is \<open>o.p = v\<close> and \<open>Call o m args\<close> is \<open>o.m(args)\<close>. Objects, methods
  and properties carry the names of the source. A template literal is the list of its
  parts, so that no number is printed.
\<close>

datatype val =
    VNum jsnum
  | VStr jsstring
  | VTmpl "val list"
  | VObj string
  | VData "byte list"

datatype event =
    Bind string string string "val list"
  | Assign string string val
  | Call string string "val list"

text \<open>
  What the host answers during one call. The bounding rectangle of the banner is read
  twice (lines 62 and 138 of \<open>src/js/export.js\<close>, 18 and 65 of \<open>src/unnamed/part_000\<close>).
  Computed styles are read by CSS property name. \<open>parseFloat\<close> and the value that the
  \<open>width\<close> or the \<open>height\<close> of a canvas reads back after an assignment (\<open>readBack\<close>,
  by property name) are functions of the browser, taken as they are. \<open>blurData\<close> is the pixel buffer that \<open>getImageData\<close>
  returns, \<open>randoms\<close> the results of \<open>Math.random()\<close>, one for each pixel of the noise
  buffer, \<open>isoDate\<close> the result of \<open>new Date().toISOString()\<close>.
\<close>

datatype load = Loaded | LoadError | Pending

record host =
  previewRect :: rect
  bannerRect :: rect
  cardRect :: rect
  naturalWidth :: nat
  naturalHeight :: nat
  imgSrc :: jsstring
  imgLoad :: load
  cardStyle :: "string \<Rightarrow> jsstring"
  txtStyle :: "string \<Rightarrow> jsstring"
  textContent :: jsstring
  parseFloat :: "jsstring \<Rightarrow> jsnum"
  readBack :: "string \<Rightarrow> jsnum \<Rightarrow> jsnum"
  StackBlur_defined :: bool
  blurData :: "byte list"
  randoms :: "real list"
  actualBoundingBoxAscent :: jsnum
  isoDate :: jsstring

section \<open>Pixel loops\<close>

text \<open>
  The saturation loop (lines 184 to 192 of \<open>src/js/export.js\<close>, with
  \<open>saturation = 1.8\<close>; lines 100 to 106 of \<open>src/unnamed/part_000\<close>). The channels
  are bytes, so every value in the loop body is finite. The loop steps by four over the
  flat buffer; a buffer from \<open>getImageData\<close> has four bytes for each pixel. In a last
  group of fewer than three bytes a missing channel reads \<open>undefined\<close>, the gray value is
  \<open>NaN\<close> and the bytes that exist are stored as 0.
\<close>

definition gray_of :: "byte \<Rightarrow> byte \<Rightarrow> byte \<Rightarrow> real" where
  "gray_of r g b = 0.2989 * real (unat r) + 0.5870 * real (unat g) + 0.1140 * real (unat b)"

definition saturated :: "real \<Rightarrow> byte \<Rightarrow> real" where
  "saturated gray c = min 255 (max 0 (gray + 1.8 * (real (unat c) - gray)))"

fun saturate :: "byte list \<Rightarrow> byte list" where
  "saturate (r # g # b # a # rest) =
     (let gray = gray_of r g b
      in ToUint8Clamp (Num (saturated gray r)) # ToUint8Clamp (Num (saturated gray g))
         # ToUint8Clamp (Num (saturated gray b)) # a # saturate rest)"
| "saturate [r, g, b] =
     (let gray = gray_of r g b
      in [ToUint8Clamp (Num (saturated gray r)), ToUint8Clamp (Num (saturated gray g)),
          ToUint8Clamp (Num (saturated gray b))])"
| "saturate [r, g] = [ToUint8Clamp NaN, ToUint8Clamp NaN]"
| "saturate [r] = [ToUint8Clamp NaN]"
| "saturate [] = []"

text \<open>
  The noise loop (lines 21 to 27 of \<open>src/js/export.js\<close>, 182 to 188 of
  \<open>src/unnamed/part_000\<close>): one random value for each pixel, stored in the three colour
  channels, with alpha 255.
\<close>

fun noise :: "real list \<Rightarrow> byte list" where
  "noise [] = []"
| "noise (random # rest) =
     (let v = Num (random * 255)
      in ToUint8Clamp v # ToUint8Clamp v # ToUint8Clamp v # 255 # noise rest)"

section \<open>The two colour patterns\<close>

text \<open>
  Both regular expressions are matched from left to right without any choice to come
  back to: after \<open>rgb\<close> an \<open>a\<close> is taken when it is there, since the next character
  must be the parenthesis; a run of digits (or of white space) is taken whole, since what
  must follow is not a digit (not white space).
\<close>

definition lit :: "string \<Rightarrow> jsstring \<Rightarrow> jsstring option" where
  "lit p s = (if take (length p) s = js p then Some (drop (length p) s) else None)"

definition opt_a :: "jsstring \<Rightarrow> jsstring" where
  "opt_a s = (case s of [] \<Rightarrow> [] | c # cs \<Rightarrow> if c = 97 then cs else c # cs)"

definition run1 :: "(nat \<Rightarrow> bool) \<Rightarrow> jsstring \<Rightarrow> (jsstring \<times> jsstring) option" where
  "run1 P s = (if takeWhile P s = [] then None else Some (takeWhile P s, dropWhile P s))"

text \<open>
  Line 225 of \<open>src/unnamed/part_000\<close>: \<open>/rgba?\((\d+),\s*(\d+),\s*(\d+)/\<close> at the
  start of \<open>s\<close>, with its three groups, and \<open>textColor.match\<close>, which tries every start
  from the left and is \<open>null\<close> (here \<open>None\<close>) when none matches.
\<close>

definition colorPattern_at :: "jsstring \<Rightarrow> (jsstring \<times> jsstring \<times> jsstring) option" where
  "colorPattern_at s0 = do {
     s1 \<leftarrow> lit ''rgb'' s0;
     s2 \<leftarrow> lit ''('' (opt_a s1);
     (g1, s3) \<leftarrow> run1 isDigit s2;
     s4 \<leftarrow> lit '','' s3;
     (g2, s5) \<leftarrow> run1 isDigit (dropWhile isSpace s4);
     s6 \<leftarrow> lit '','' s5;
     (g3, s7) \<leftarrow> run1 isDigit (dropWhile isSpace s6);
     Some (g1, g2, g3)
   }"

fun colorMatch :: "jsstring \<Rightarrow> (jsstring \<times> jsstring \<times> jsstring) option" where
  "colorMatch [] = None"
| "colorMatch (c # cs) =
     (case colorPattern_at (c # cs) of Some m \<Rightarrow> Some m | None \<Rightarrow> colorMatch cs)"

text \<open>
  \<open>parseInt\<close> on a string of decimal digits, which is what each group holds: the number
  that the digits write.
\<close>

definition parseInt :: "jsstring \<Rightarrow> jsnum" where
  "parseInt ds = Num (real (foldl (\<lambda>n c. 10 * n + (c - 48)) 0 ds))"

text \<open>Lines 224 to 231 of \<open>src/unnamed/part_000\<close>: the channels of the text colour.\<close>

definition textRGB :: "jsstring \<Rightarrow> jsnum \<times> jsnum \<times> jsnum" where
  "textRGB textColor =
     (case colorMatch textColor of
        None \<Rightarrow> (Num 255, Num 255, Num 255)
      | Some (g1, g2, g3) \<Rightarrow> (parseInt g1, parseInt g2, parseInt g3))"

text \<open>
  Line 236 of \<open>src/js/export.js\<close>:
  \<open>/rgba?\((\d+),\s*(\d+),\s*(\d+),\s*([\d.]+)\)/g\<close>. \<open>rgbaPattern_at\<close> gives what is
  left of \<open>s\<close> after a match at its start; \<open>match_rgba\<close> is the list of all the matched
  substrings, from left to right, and is empty where \<open>match\<close> returns \<open>null\<close> (the
  source only asks whether there are two of them).
\<close>

definition rgbaPattern_at :: "jsstring \<Rightarrow> jsstring option" where
  "rgbaPattern_at s0 = do {
     s1 \<leftarrow> lit ''rgb'' s0;
     s2 \<leftarrow> lit ''('' (opt_a s1);
     (g1, s3) \<leftarrow> run1 isDigit s2;
     s4 \<leftarrow> lit '','' s3;
     (g2, s5) \<leftarrow> run1 isDigit (dropWhile isSpace s4);
     s6 \<leftarrow> lit '','' s5;
     (g3, s7) \<leftarrow> run1 isDigit (dropWhile isSpace s6);
     s8 \<leftarrow> lit '','' s7;
     (g4, s9) \<leftarrow> run1 (\<lambda>c. isDigit c \<or> c = 46) (dropWhile isSpace s8);
     lit '')'' s9
   }"

function match_rgba :: "jsstring \<Rightarrow> jsstring list" where
  "match_rgba [] = []"
| "match_rgba (c # cs) =
     (case rgbaPattern_at (c # cs) of
        Some rest \<Rightarrow> take (length (c # cs) - length rest) (c # cs) # match_rgba rest
      | None \<Rightarrow> match_rgba cs)"
  by pat_completeness auto
termination
proof (relation "measure length")
  fix c cs rest
  assume m: "rgbaPattern_at (c # cs) = Some rest"
  have lit_length: "length r + length p = length s" if "lit p s = Some r" for p s r
    using that
    by (auto simp: lit_def js_def split: if_splits dest!: arg_cong [where f = length])
  have run1_length: "length r \<le> length s" if "run1 P s = Some (g, r)" for P s g r
    using that by (auto simp: run1_def length_dropWhile_le split: if_splits)
  have run1_skip_length: "length r \<le> length s"
    if "run1 P (dropWhile Q s) = Some (g, r)" for P Q s g r
    using run1_length [OF that] length_dropWhile_le [of Q s] by simp
  have opt_a_length: "length (opt_a s) \<le> length s" for s
    by (simp add: opt_a_def split: list.splits)
  from m obtain s1 s2 g1 s3 s4 g2 s5 s6 g3 s7 s8 g4 s9 where
    "lit ''rgb'' (c # cs) = Some s1" "lit ''('' (opt_a s1) = Some s2"
    "run1 isDigit s2 = Some (g1, s3)" "lit '','' s3 = Some s4"
    "run1 isDigit (dropWhile isSpace s4) = Some (g2, s5)" "lit '','' s5 = Some s6"
    "run1 isDigit (dropWhile isSpace s6) = Some (g3, s7)" "lit '','' s7 = Some s8"
    "run1 (\<lambda>c. isDigit c \<or> c = 46) (dropWhile isSpace s8) = Some (g4, s9)"
    "lit '')'' s9 = Some rest"
    by (auto simp: rgbaPattern_at_def split: Option.bind_splits)
  then have "length s1 < length (c # cs)" "length s2 \<le> length (opt_a s1)"
    "length s3 \<le> length s2" "length s4 \<le> length s3" "length s5 \<le> length s4"
    "length s6 \<le> length s5" "length s7 \<le> length s6" "length s8 \<le> length s7"
    "length s9 \<le> length s8" "length rest \<le> length s9"
    by (auto dest: lit_length run1_skip_length run1_length)
  then have "length rest < length (c # cs)"
    using opt_a_length [of s1] by linarith
  then show "(rest, c # cs) \<in> measure length" by simp
qed simp_all

section \<open>The export of \<open>src/js/export.js\<close>\<close>

text \<open>\<open>roundRect\<close>, lines 36 to 48.\<close>

definition roundRect :: "string \<Rightarrow> jsnum \<Rightarrow> jsnum \<Rightarrow> jsnum \<Rightarrow> jsnum \<Rightarrow> jsnum \<Rightarrow> event list" where
  "roundRect ctx x y width height radius =
     [Call ctx ''beginPath'' [],
      Call ctx ''moveTo'' [VNum (jadd x radius), VNum y],
      Call ctx ''lineTo'' [VNum (jsub (jadd x width) radius), VNum y],
      Call ctx ''quadraticCurveTo''
        [VNum (jadd x width), VNum y, VNum (jadd x width), VNum (jadd y radius)],
      Call ctx ''lineTo'' [VNum (jadd x width), VNum (jsub (jadd y height) radius)],
      Call ctx ''quadraticCurveTo''
        [VNum (jadd x width), VNum (jadd y height),
         VNum (jsub (jadd x width) radius), VNum (jadd y height)],
      Call ctx ''lineTo'' [VNum (jadd x radius), VNum (jadd y height)],
      Call ctx ''quadraticCurveTo''
        [VNum x, VNum (jadd y height), VNum x, VNum (jsub (jadd y height) radius)],
      Call ctx ''lineTo'' [VNum x, VNum (jadd y radius)],
      Call ctx ''quadraticCurveTo'' [VNum x, VNum y, VNum (jadd x radius), VNum y],
      Call ctx ''closePath'' []]"

text \<open>
  \<open>createNoiseTexture\<close>, lines 12 to 31. Its local \<open>canvas\<close>, \<open>ctx\<close> and
  \<open>imageData\<close> appear as \<open>noiseCanvas\<close>, \<open>noiseCtx\<close> and \<open>noiseData\<close>, apart from the
  objects of the caller; the caller binds the result to \<open>noiseCanvas\<close>.
\<close>

definition createNoiseTexture :: "host \<Rightarrow> jsnum \<Rightarrow> jsnum \<Rightarrow> event list" where
  "createNoiseTexture h width height =
     [Bind ''noiseCanvas'' ''document'' ''createElement'' [VStr (js ''canvas'')],
      Assign ''noiseCanvas'' ''width'' (VNum width),
      Assign ''noiseCanvas'' ''height'' (VNum height),
      Bind ''noiseCtx'' ''noiseCanvas'' ''getContext'' [VStr (js ''2d'')],
      Bind ''noiseData'' ''noiseCtx'' ''createImageData'' [VNum width, VNum height],
      Call ''noiseCtx'' ''putImageData'' [VData (noise (randoms h)), VNum (Num 0), VNum (Num 0)]]"

text \<open>
  \<open>downloadCanvas\<close>, lines 348 to 363: the call of \<open>toBlob\<close>, then what its callback
  does with the blob.
\<close>

definition downloadCanvas :: "host \<Rightarrow> string \<Rightarrow> jsnum \<Rightarrow> jsnum \<Rightarrow> event list" where
  "downloadCanvas h canvas width height =
     [Call canvas ''toBlob'' [VObj ''callback'', VStr (js ''image/png'')],
      Bind ''url'' ''URL'' ''createObjectURL'' [VObj ''blob''],
      Bind ''a'' ''document'' ''createElement'' [VStr (js ''a'')],
      Assign ''a'' ''href'' (VObj ''url''),
      Assign ''a'' ''download''
        (VTmpl [VStr (js ''banner_''), VNum width, VStr (js ''x''), VNum height,
                VStr (js ''_''), VStr (take 10 (isoDate h)), VStr (js ''.png'')]),
      Call ''document.body'' ''appendChild'' [VObj ''a''],
      Call ''a'' ''click'' [],
      Call ''document.body'' ''removeChild'' [VObj ''a''],
      Call ''URL'' ''revokeObjectURL'' [VObj ''url'']]"

text \<open>
  Lines 97 to 111, the same as lines 46 to 59 of \<open>src/unnamed/part_000\<close>: the main
  canvas, and the image whose \<open>src\<close> is set inside the promise that is awaited.
\<close>

definition createCanvas :: "jsnum \<Rightarrow> jsnum \<Rightarrow> event list" where
  "createCanvas exportWidth exportHeight =
     [Bind ''canvas'' ''document'' ''createElement'' [VStr (js ''canvas'')],
      Assign ''canvas'' ''width'' (VNum exportWidth),
      Assign ''canvas'' ''height'' (VNum exportHeight),
      Bind ''ctx'' ''canvas'' ''getContext'' [VStr (js ''2d'')]]"

definition loadImage :: "host \<Rightarrow> event list" where
  "loadImage h =
     [Bind ''img'' ''new'' ''Image'' [],
      Assign ''img'' ''crossOrigin'' (VStr (js ''anonymous'')),
      Assign ''img'' ''onload'' (VObj ''resolve''),
      Assign ''img'' ''onerror'' (VObj ''reject''),
      Assign ''img'' ''src'' (VStr (imgSrc h))]"

text \<open>The \<open>catch\<close> block, lines 336 to 339 (294 to 297 of \<open>src/unnamed/part_000\<close>).\<close>

definition catch :: "event list" where
  "catch =
     [Call ''console'' ''error'' [VStr (js ''Error exporting banner:''), VObj ''error''],
      Call ''window'' ''alert'' [VStr (js ''Failed to export banner. Please try again.'')]]"

text \<open>Lines 113 to 129: the source rectangle \<open>(sx, sy, sw, sh)\<close>.\<close>

definition sourceCrop ::
  "nat \<Rightarrow> nat \<Rightarrow> jsval \<Rightarrow> jsval \<Rightarrow> jsnum \<Rightarrow> jsnum \<Rightarrow> jsnum \<times> jsnum \<times> jsnum \<times> jsnum" where
  "sourceCrop imgNaturalWidth imgNaturalHeight fixWidth fixHeight exportWidth exportHeight =
     (let sx = Num 0; sy = Num 0;
          sw = Num (real imgNaturalWidth); sh = Num (real imgNaturalHeight)
      in if truthy (js_or fixWidth fixHeight) then
           (let targetAspect = jdiv exportWidth exportHeight;
                sourceAspect = jdiv (Num (real imgNaturalWidth)) (Num (real imgNaturalHeight))
            in if jgt targetAspect sourceAspect then
                 (let sh = jdiv (Num (real imgNaturalWidth)) targetAspect;
                      sy = jdiv (jsub (Num (real imgNaturalHeight)) sh) (Num 2)
                  in (sx, sy, sw, sh))
               else if jlt targetAspect sourceAspect then
                 (let sw = jmul (Num (real imgNaturalHeight)) targetAspect;
                      sx = jdiv (jsub (Num (real imgNaturalWidth)) sw) (Num 2)
                  in (sx, sy, sw, sh))
               else (sx, sy, sw, sh))
         else (sx, sy, sw, sh))"

text \<open>Lines 131 and 132.\<close>

definition drawBackground :: "host \<Rightarrow> jsval \<Rightarrow> jsval \<Rightarrow> jsnum \<Rightarrow> jsnum \<Rightarrow> event list" where
  "drawBackground h fixWidth fixHeight exportWidth exportHeight =
     (let (sx, sy, sw, sh) =
            sourceCrop (naturalWidth h) (naturalHeight h) fixWidth fixHeight
              exportWidth exportHeight
      in [Call ''ctx'' ''drawImage''
            [VObj ''img'', VNum sx, VNum sy, VNum sw, VNum sh,
             VNum (Num 0), VNum (Num 0), VNum exportWidth, VNum exportHeight]])"

text \<open>
  Lines 140 to 149 (67 to 70 of \<open>src/unnamed/part_000\<close>): the card rectangle
  \<open>(cardX, cardY, cardWidth, cardHeight)\<close> on the canvas.
\<close>

definition cardBox :: "host \<Rightarrow> jsnum \<Rightarrow> jsnum \<Rightarrow> jsnum \<times> jsnum \<times> jsnum \<times> jsnum" where
  "cardBox h exportWidth exportHeight =
     (let cardRelativeX =
            jdiv (jsub (rect_left (cardRect h)) (rect_left (bannerRect h))) (rect_width (previewRect h));
          cardRelativeY =
            jdiv (jsub (rect_top (cardRect h)) (rect_top (bannerRect h))) (rect_height (previewRect h));
          cardRelativeWidth = jdiv (rect_width (cardRect h)) (rect_width (previewRect h));
          cardRelativeHeight = jdiv (rect_height (cardRect h)) (rect_height (previewRect h))
      in (jmul cardRelativeX exportWidth, jmul cardRelativeY exportHeight,
          jmul cardRelativeWidth exportWidth, jmul cardRelativeHeight exportHeight))"

text \<open>
  Lines 154 to 193: the backdrop of the card is copied to \<open>blurCanvas\<close>, blurred when
  \<open>StackBlur\<close> is defined, and saturated.
\<close>

definition blurRadius :: "jsnum \<Rightarrow> jsnum" where
  "blurRadius scale = jmul (Num 12) scale"

definition blurPadding :: "jsnum \<Rightarrow> jsnum" where
  "blurPadding scale = Math_ceil (jmul (blurRadius scale) (Num 3))"

definition backdropBlur ::
  "host \<Rightarrow> jsnum \<Rightarrow> jsnum \<Rightarrow> jsnum \<Rightarrow> jsnum \<times> jsnum \<times> jsnum \<times> jsnum \<Rightarrow> event list" where
  "backdropBlur h scale exportWidth exportHeight box =
     (let (cardX, cardY, cardWidth, cardHeight) = box;
          w = Math_ceil (jadd cardWidth (jmul (blurPadding scale) (Num 2)));
          h' = Math_ceil (jadd cardHeight (jmul (blurPadding scale) (Num 2)));
          blurCanvas_width = readBack h ''width'' w;
          blurCanvas_height = readBack h ''height'' h'
      in [Bind ''blurCanvas'' ''document'' ''createElement'' [VStr (js ''canvas'')],
          Assign ''blurCanvas'' ''width'' (VNum w),
          Assign ''blurCanvas'' ''height'' (VNum h'),
          Bind ''blurCtx'' ''blurCanvas'' ''getContext'' [VStr (js ''2d'')],
          Call ''blurCtx'' ''drawImage''
            [VObj ''canvas'',
             VNum (Math_max (Num 0) (jsub cardX (blurPadding scale))),
             VNum (Math_max (Num 0) (jsub cardY (blurPadding scale))),
             VNum (Math_min exportWidth (jadd cardWidth (jmul (blurPadding scale) (Num 2)))),
             VNum (Math_min exportHeight (jadd cardHeight (jmul (blurPadding scale) (Num 2)))),
             VNum (Num 0), VNum (Num 0), VNum blurCanvas_width, VNum blurCanvas_height]]
         @ (if StackBlur_defined h then
              [Call ''StackBlur'' ''canvasRGB''
                 [VObj ''blurCanvas'', VNum (Num 0), VNum (Num 0),
                  VNum blurCanvas_width, VNum blurCanvas_height,
                  VNum (Math_round (blurRadius scale))]]
            else [])
         @ [Bind ''imageData'' ''blurCtx'' ''getImageData''
              [VNum (Num 0), VNum (Num 0), VNum blurCanvas_width, VNum blurCanvas_height],
            Call ''blurCtx'' ''putImageData''
              [VData (saturate (blurData h)), VNum (Num 0), VNum (Num 0)]])"

text \<open>Lines 195 to 205: the blurred backdrop, clipped to the card.\<close>

definition drawBlurred ::
  "jsnum \<Rightarrow> jsnum \<times> jsnum \<times> jsnum \<times> jsnum \<Rightarrow> jsnum \<Rightarrow> event list" where
  "drawBlurred scale box borderRadius =
     (let (cardX, cardY, cardWidth, cardHeight) = box
      in [Call ''ctx'' ''save'' []]
         @ roundRect ''ctx'' cardX cardY cardWidth cardHeight borderRadius
         @ [Call ''ctx'' ''clip'' [],
            Call ''ctx'' ''drawImage''
              [VObj ''blurCanvas'', VNum (jsub cardX (blurPadding scale)),
               VNum (jsub cardY (blurPadding scale))],
            Call ''ctx'' ''restore'' []])"

text \<open>Lines 207 to 227: the three shadow layers, each filled once.\<close>

record layer =
  blur :: jsnum
  offsetY :: jsnum
  alpha :: jsnum

definition shadowLayers :: "jsnum \<Rightarrow> layer list" where
  "shadowLayers scale =
     [\<lparr>blur = jmul (Num 4) scale, offsetY = jmul (Num 2) scale, alpha = Num 0.1\<rparr>,
      \<lparr>blur = jmul (Num 16) scale, offsetY = jmul (Num 8) scale, alpha = Num 0.2\<rparr>,
      \<lparr>blur = jmul (Num 48) scale, offsetY = jmul (Num 16) scale, alpha = Num 0.3\<rparr>]"

definition shadowFill ::
  "jsnum \<times> jsnum \<times> jsnum \<times> jsnum \<Rightarrow> jsnum \<Rightarrow> layer \<Rightarrow> event list" where
  "shadowFill box borderRadius l =
     (let (cardX, cardY, cardWidth, cardHeight) = box
      in [Assign ''ctx'' ''shadowColor''
            (VTmpl [VStr (js ''rgba(10, 10, 10, ''), VNum (alpha l), VStr (js '')'')]),
          Assign ''ctx'' ''shadowBlur'' (VNum (blur l)),
          Assign ''ctx'' ''shadowOffsetY'' (VNum (offsetY l))]
         @ roundRect ''ctx'' cardX cardY cardWidth cardHeight borderRadius
         @ [Assign ''ctx'' ''fillStyle'' (VStr (js ''rgba(0, 0, 0, 0.01)'')),
            Call ''ctx'' ''fill'' []])"

definition cardShadows ::
  "jsnum \<Rightarrow> jsnum \<times> jsnum \<times> jsnum \<times> jsnum \<Rightarrow> jsnum \<Rightarrow> event list" where
  "cardShadows scale box borderRadius =
     [Call ''ctx'' ''save'' []]
     @ concat (map (shadowFill box borderRadius) (shadowLayers scale))
     @ [Assign ''ctx'' ''shadowColor'' (VStr (js ''transparent'')),
        Assign ''ctx'' ''shadowBlur'' (VNum (Num 0)),
        Assign ''ctx'' ''shadowOffsetY'' (VNum (Num 0)),
        Call ''ctx'' ''restore'' []]"

text \<open>
  Lines 229 to 269: inside one clip to the card, the gradient fill, the noise texture,
  the border stroke and the top highlight, in this order.
\<close>

definition gradientOverlay ::
  "host \<Rightarrow> jsnum \<times> jsnum \<times> jsnum \<times> jsnum \<Rightarrow> jsnum \<Rightarrow> event list" where
  "gradientOverlay h box borderRadius =
     (let (cardX, cardY, cardWidth, cardHeight) = box;
          bgStyle = str_or (cardStyle h ''background'') (cardStyle h ''background-image'');
          rgbaMatch = match_rgba bgStyle
      in [Call ''ctx'' ''save'' []]
         @ roundRect ''ctx'' cardX cardY cardWidth cardHeight borderRadius
         @ [Call ''ctx'' ''clip'' [],
            Bind ''gradient'' ''ctx'' ''createLinearGradient''
              [VNum cardX, VNum cardY, VNum (jadd cardX cardWidth), VNum (jadd cardY cardHeight)]]
         @ (if 2 \<le> length rgbaMatch then
              [Call ''gradient'' ''addColorStop'' [VNum (Num 0), VStr (rgbaMatch ! 0)],
               Call ''gradient'' ''addColorStop'' [VNum (Num 1), VStr (rgbaMatch ! 1)]]
            else
              [Call ''gradient'' ''addColorStop''
                 [VNum (Num 0), VStr (js ''rgba(255, 255, 255, 0.25)'')],
               Call ''gradient'' ''addColorStop''
                 [VNum (Num 1), VStr (js ''rgba(255, 255, 255, 0.15)'')]])
         @ [Assign ''ctx'' ''fillStyle'' (VObj ''gradient''),
            Call ''ctx'' ''fill'' []])"

definition noiseOverlay :: "host \<Rightarrow> jsnum \<times> jsnum \<times> jsnum \<times> jsnum \<Rightarrow> event list" where
  "noiseOverlay h box =
     (let (cardX, cardY, cardWidth, cardHeight) = box
      in createNoiseTexture h (Math_ceil cardWidth) (Math_ceil cardHeight)
         @ [Assign ''ctx'' ''globalAlpha'' (VNum (Num 0.15)),
            Assign ''ctx'' ''globalCompositeOperation'' (VStr (js ''overlay'')),
            Call ''ctx'' ''drawImage''
              [VObj ''noiseCanvas'', VNum cardX, VNum cardY, VNum cardWidth, VNum cardHeight],
            Assign ''ctx'' ''globalAlpha'' (VNum (Num 1)),
            Assign ''ctx'' ''globalCompositeOperation'' (VStr (js ''source-over''))])"

definition insetHighlights ::
  "jsnum \<Rightarrow> jsnum \<times> jsnum \<times> jsnum \<times> jsnum \<Rightarrow> jsnum \<Rightarrow> event list" where
  "insetHighlights scale box borderRadius =
     (let (cardX, cardY, cardWidth, cardHeight) = box
      in [Assign ''ctx'' ''strokeStyle'' (VStr (js ''rgba(250, 250, 250, 0.06)'')),
          Assign ''ctx'' ''lineWidth'' (VNum (Num 1))]
         @ roundRect ''ctx'' cardX cardY cardWidth cardHeight borderRadius
         @ [Call ''ctx'' ''stroke'' [],
            Bind ''topHighlight'' ''ctx'' ''createLinearGradient''
              [VNum cardX, VNum cardY, VNum cardX, VNum (jadd cardY (jmul (Num 12) scale))],
            Call ''topHighlight'' ''addColorStop''
              [VNum (Num 0), VStr (js ''rgba(250, 250, 250, 0.12)'')],
            Call ''topHighlight'' ''addColorStop''
              [VNum (Num 1), VStr (js ''rgba(250, 250, 250, 0)'')],
            Assign ''ctx'' ''fillStyle'' (VObj ''topHighlight''),
            Call ''ctx'' ''fillRect''
              [VNum cardX, VNum cardY, VNum cardWidth, VNum (jmul (Num 12) scale)],
            Call ''ctx'' ''restore'' []])"

text \<open>
  Lines 271 to 332: the text, centred in the card, in four passes. A pass between
  \<open>save\<close> and \<open>restore\<close> sets the shadow, the alpha and the fill style, and fills the
  text.
\<close>

definition textPass ::
  "val \<Rightarrow> jsnum \<Rightarrow> jsnum \<Rightarrow> jsnum \<Rightarrow> jsstring \<Rightarrow> jsstring \<Rightarrow> jsnum \<Rightarrow> jsnum \<Rightarrow> event list" where
  "textPass shadowColor shadowBlur shadowOffsetY globalAlpha textColor text textX textY =
     [Call ''ctx'' ''save'' [],
      Assign ''ctx'' ''shadowColor'' shadowColor,
      Assign ''ctx'' ''shadowBlur'' (VNum shadowBlur),
      Assign ''ctx'' ''shadowOffsetX'' (VNum (Num 0)),
      Assign ''ctx'' ''shadowOffsetY'' (VNum shadowOffsetY),
      Assign ''ctx'' ''globalAlpha'' (VNum globalAlpha),
      Assign ''ctx'' ''fillStyle'' (VStr textColor),
      Call ''ctx'' ''fillText'' [VStr text, VNum textX, VNum textY],
      Call ''ctx'' ''restore'' []]"

definition drawText :: "host \<Rightarrow> jsnum \<Rightarrow> jsnum \<times> jsnum \<times> jsnum \<times> jsnum \<Rightarrow> event list" where
  "drawText h scale box =
     (let (cardX, cardY, cardWidth, cardHeight) = box;
          fontSize = jmul (parseFloat h (txtStyle h ''font-size'')) scale;
          fontWeight = txtStyle h ''font-weight'';
          fontFamily = txtStyle h ''font-family'';
          textColor = txtStyle h ''color'';
          text = textContent h;
          textX = jadd cardX (jdiv cardWidth (Num 2));
          textY = jadd cardY (jdiv cardHeight (Num 2));
          shadowColor = str_or (txtStyle h ''--txt-shadow-color'') textColor
      in [Assign ''ctx'' ''font''
            (VTmpl [VStr fontWeight, VStr (js '' ''), VNum fontSize, VStr (js ''px ''),
                    VStr fontFamily]),
          Bind ''textMetrics'' ''ctx'' ''measureText'' [VStr text],
          Assign ''ctx'' ''textAlign'' (VStr (js ''center'')),
          Assign ''ctx'' ''textBaseline'' (VStr (js ''middle''))]
         @ textPass (VStr shadowColor) (jmul (Num 5) scale) (jmul (Num (- 2)) scale)
             (Num 0.25) textColor text textX textY
         @ textPass (VStr (js ''rgba(0, 0, 0, 0.14)'')) (jmul (Num 0.5) scale)
             (jmul (Num (- 1)) scale) (Num 0.2) textColor text textX textY
         @ textPass (VStr (js ''rgba(255, 255, 255, 0.8)'')) (jmul (Num 2) scale)
             (jmul (Num 1) scale) (Num 1) textColor text textX textY
         @ [Call ''ctx'' ''save'' [],
            Assign ''ctx'' ''fillStyle'' (VStr textColor),
            Assign ''ctx'' ''globalAlpha'' (VNum (Num 0.8)),
            Assign ''ctx'' ''globalCompositeOperation'' (VStr (js ''multiply'')),
            Call ''ctx'' ''fillText'' [VStr text, VNum textX, VNum textY],
            Call ''ctx'' ''restore'' []])"

text \<open>
  The card, lines 134 to 269, and \<open>exportBanner\<close>, lines 59 to 340. The elements are
  the host; the trace is what the call does until it ends. The promise of line 107 is
  the one place where the source itself can throw: \<open>LoadError\<close> rejects it and control
  goes to the \<open>catch\<close> block; while the image is \<open>Pending\<close> nothing more happens. Calls
  into the canvas are recorded as returning.
\<close>

definition drawCard :: "host \<Rightarrow> jsnum \<Rightarrow> jsnum \<Rightarrow> jsnum \<Rightarrow> event list" where
  "drawCard h scale exportWidth exportHeight =
     (let box = cardBox h exportWidth exportHeight;
          borderRadius = jmul (parseFloat h (cardStyle h ''border-radius'')) scale
      in backdropBlur h scale exportWidth exportHeight box
         @ drawBlurred scale box borderRadius
         @ cardShadows scale box borderRadius
         @ gradientOverlay h box borderRadius
         @ noiseOverlay h box
         @ insetHighlights scale box borderRadius)"

definition exportBanner :: "host \<Rightarrow> jsval \<Rightarrow> jsval \<Rightarrow> event list" where
  "exportBanner h fixWidth fixHeight =
     (let (exportWidth, exportHeight) =
            exportSize (previewRect h) (naturalWidth h) (naturalHeight h) fixWidth fixHeight;
          scale = jdiv exportWidth (rect_width (previewRect h))
      in createCanvas exportWidth exportHeight @ loadImage h
         @ (case imgLoad h of
              Pending \<Rightarrow> []
            | LoadError \<Rightarrow> catch
            | Loaded \<Rightarrow>
                drawBackground h fixWidth fixHeight exportWidth exportHeight
                @ drawCard h scale exportWidth exportHeight
                @ drawText h scale (cardBox h exportWidth exportHeight)
                @ downloadCanvas h ''canvas'' exportWidth exportHeight))"

section \<open>The export of \<open>src/unnamed/part_000\<close>\<close>

text \<open>\<open>getComputed\<close>, lines 9 to 11, on the computed style of an element.\<close>

definition getComputed :: "(string \<Rightarrow> jsstring) \<Rightarrow> string \<Rightarrow> jsstring" where
  "getComputed style property = trim (style property)"

text \<open>
  Lines 73 to 107: the backdrop is copied to \<open>blurCanvas\<close> with a padding of twice the
  blur radius, blurred when \<open>StackBlur\<close> is defined, and saturated.
\<close>

definition padding :: "jsnum \<Rightarrow> jsnum" where
  "padding scale = Math_ceil (jmul (jmul (Num 12) scale) (Num 2))"

definition blurredBackdrop ::
  "host \<Rightarrow> jsnum \<Rightarrow> jsnum \<Rightarrow> jsnum \<Rightarrow> jsnum \<times> jsnum \<times> jsnum \<times> jsnum \<Rightarrow> event list" where
  "blurredBackdrop h scale targetWidth targetHeight box =
     (let (cardX, cardY, cardWidth, cardHeight) = box;
          blurRadius = jmul (Num 12) scale;
          w = jadd cardWidth (jmul (padding scale) (Num 2));
          h' = jadd cardHeight (jmul (padding scale) (Num 2));
          blurCanvas_width = readBack h ''width'' w;
          blurCanvas_height = readBack h ''height'' h'
      in [Bind ''blurCanvas'' ''document'' ''createElement'' [VStr (js ''canvas'')],
          Assign ''blurCanvas'' ''width'' (VNum w),
          Assign ''blurCanvas'' ''height'' (VNum h'),
          Bind ''blurCtx'' ''blurCanvas'' ''getContext'' [VStr (js ''2d'')],
          Call ''blurCtx'' ''drawImage''
            [VObj ''canvas'',
             VNum (Math_max (Num 0) (jsub cardX (padding scale))),
             VNum (Math_max (Num 0) (jsub cardY (padding scale))),
             VNum (Math_min (jadd (jsub targetWidth cardX) (padding scale)) blurCanvas_width),
             VNum (Math_min (jadd (jsub targetHeight cardY) (padding scale)) blurCanvas_height),
             VNum (Num 0), VNum (Num 0), VNum blurCanvas_width, VNum blurCanvas_height]]
         @ (if StackBlur_defined h then
              [Call ''StackBlur'' ''canvasRGB''
                 [VObj ''blurCanvas'', VNum (Num 0), VNum (Num 0),
                  VNum blurCanvas_width, VNum blurCanvas_height, VNum (Math_round blurRadius)]]
            else [])
         @ [Bind ''imageData'' ''blurCtx'' ''getImageData''
              [VNum (Num 0), VNum (Num 0), VNum blurCanvas_width, VNum blurCanvas_height],
            Call ''blurCtx'' ''putImageData''
              [VData (saturate (blurData h)), VNum (Num 0), VNum (Num 0)]])"

text \<open>
  Lines 109 to 132: the three box shadows, and the whole list drawn three times over.
\<close>

record shadow =
  shadow_offsetY :: jsnum
  shadow_blur :: jsnum
  shadow_color :: jsstring

definition shadows :: "jsnum \<Rightarrow> shadow list" where
  "shadows scale =
     [\<lparr>shadow_offsetY = jmul (Num 2) scale, shadow_blur = jmul (Num 4) scale,
       shadow_color = js ''rgba(10, 10, 10, 0.1)''\<rparr>,
      \<lparr>shadow_offsetY = jmul (Num 8) scale, shadow_blur = jmul (Num 16) scale,
       shadow_color = js ''rgba(10, 10, 10, 0.2)''\<rparr>,
      \<lparr>shadow_offsetY = jmul (Num 16) scale, shadow_blur = jmul (Num 48) scale,
       shadow_color = js ''rgba(10, 10, 10, 0.3)''\<rparr>]"

definition drawShadow ::
  "jsnum \<times> jsnum \<times> jsnum \<times> jsnum \<Rightarrow> jsnum \<Rightarrow> shadow \<Rightarrow> event list" where
  "drawShadow box cardRadius sh =
     (let (cardX, cardY, cardWidth, cardHeight) = box
      in [Call ''ctx'' ''save'' [],
          Assign ''ctx'' ''shadowColor'' (VStr (shadow_color sh)),
          Assign ''ctx'' ''shadowBlur'' (VNum (shadow_blur sh)),
          Assign ''ctx'' ''shadowOffsetY'' (VNum (shadow_offsetY sh)),
          Assign ''ctx'' ''shadowOffsetX'' (VNum (Num 0)),
          Call ''ctx'' ''beginPath'' [],
          Call ''ctx'' ''roundRect''
            [VNum cardX, VNum cardY, VNum cardWidth, VNum cardHeight, VNum cardRadius],
          Assign ''ctx'' ''fillStyle'' (VStr (js ''rgba(255, 255, 255, 0.02)'')),
          Call ''ctx'' ''fill'' [],
          Call ''ctx'' ''restore'' []])"

definition boxShadows ::
  "jsnum \<Rightarrow> jsnum \<times> jsnum \<times> jsnum \<times> jsnum \<Rightarrow> jsnum \<Rightarrow> event list" where
  "boxShadows scale box cardRadius =
     concat (replicate 3 (concat (map (drawShadow box cardRadius) (shadows scale))))"

text \<open>
  Lines 134 to 155: the blurred backdrop and the gradient are composed on \<open>cardCanvas\<close>,
  which is then drawn on the main canvas inside a clip to the rounded card.
\<close>

definition cardContent :: "jsnum \<Rightarrow> jsnum \<times> jsnum \<times> jsnum \<times> jsnum \<Rightarrow> event list" where
  "cardContent scale box =
     (let (cardX, cardY, cardWidth, cardHeight) = box
      in [Bind ''cardCanvas'' ''document'' ''createElement'' [VStr (js ''canvas'')],
          Assign ''cardCanvas'' ''width'' (VNum cardWidth),
          Assign ''cardCanvas'' ''height'' (VNum cardHeight),
          Bind ''cardCtx'' ''cardCanvas'' ''getContext'' [VStr (js ''2d'')],
          Call ''cardCtx'' ''drawImage''
            [VObj ''blurCanvas'', VNum (padding scale), VNum (padding scale),
             VNum cardWidth, VNum cardHeight,
             VNum (Num 0), VNum (Num 0), VNum cardWidth, VNum cardHeight],
          Bind ''gradient'' ''cardCtx'' ''createLinearGradient''
            [VNum (Num 0), VNum (Num 0), VNum cardWidth, VNum cardHeight],
          Call ''gradient'' ''addColorStop''
            [VNum (Num 0), VStr (js ''rgba(255, 255, 255, 0.25)'')],
          Call ''gradient'' ''addColorStop''
            [VNum (Num 1), VStr (js ''rgba(255, 255, 255, 0.15)'')],
          Assign ''cardCtx'' ''fillStyle'' (VObj ''gradient''),
          Call ''cardCtx'' ''fillRect''
            [VNum (Num 0), VNum (Num 0), VNum cardWidth, VNum cardHeight]])"

definition clipAndDraw :: "jsnum \<times> jsnum \<times> jsnum \<times> jsnum \<Rightarrow> jsnum \<Rightarrow> event list" where
  "clipAndDraw box cardRadius =
     (let (cardX, cardY, cardWidth, cardHeight) = box
      in [Call ''ctx'' ''save'' [],
          Call ''ctx'' ''beginPath'' [],
          Call ''ctx'' ''roundRect''
            [VNum cardX, VNum cardY, VNum cardWidth, VNum cardHeight, VNum cardRadius],
          Call ''ctx'' ''clip'' [],
          Call ''ctx'' ''drawImage'' [VObj ''cardCanvas'', VNum cardX, VNum cardY]])"

text \<open>Lines 157 to 172: the inset border and the top highlight, inside the clip.\<close>

definition insetHighlights_p0 ::
  "jsnum \<Rightarrow> jsnum \<times> jsnum \<times> jsnum \<times> jsnum \<Rightarrow> jsnum \<Rightarrow> event list" where
  "insetHighlights_p0 scale box cardRadius =
     (let (cardX, cardY, cardWidth, cardHeight) = box
      in [Assign ''ctx'' ''strokeStyle'' (VStr (js ''rgba(250, 250, 250, 0.06)'')),
          Assign ''ctx'' ''lineWidth'' (VNum (Num 1)),
          Call ''ctx'' ''beginPath'' [],
          Call ''ctx'' ''roundRect''
            [VNum (jadd cardX (Num 0.5)), VNum (jadd cardY (Num 0.5)),
             VNum (jsub cardWidth (Num 1)), VNum (jsub cardHeight (Num 1)), VNum cardRadius],
          Call ''ctx'' ''stroke'' [],
          Bind ''topGradient'' ''ctx'' ''createLinearGradient''
            [VNum cardX, VNum cardY, VNum cardX, VNum (jadd cardY (jmul (Num 12) scale))],
          Call ''topGradient'' ''addColorStop''
            [VNum (Num 0), VStr (js ''rgba(250, 250, 250, 0.12)'')],
          Call ''topGradient'' ''addColorStop''
            [VNum (Num 1), VStr (js ''rgba(250, 250, 250, 0)'')],
          Assign ''ctx'' ''fillStyle'' (VObj ''topGradient''),
          Call ''ctx'' ''fillRect''
            [VNum cardX, VNum cardY, VNum cardWidth, VNum (jmul (Num 12) scale)]])"

text \<open>Lines 174 to 198: the noise texture, drawn last inside the clip.\<close>

definition noiseOverlay_p0 :: "host \<Rightarrow> jsnum \<times> jsnum \<times> jsnum \<times> jsnum \<Rightarrow> event list" where
  "noiseOverlay_p0 h box =
     (let (cardX, cardY, cardWidth, cardHeight) = box
      in [Bind ''noiseCanvas'' ''document'' ''createElement'' [VStr (js ''canvas'')],
          Assign ''noiseCanvas'' ''width'' (VNum cardWidth),
          Assign ''noiseCanvas'' ''height'' (VNum cardHeight),
          Bind ''noiseCtx'' ''noiseCanvas'' ''getContext'' [VStr (js ''2d'')],
          Bind ''noiseData'' ''noiseCtx'' ''createImageData'' [VNum cardWidth, VNum cardHeight],
          Call ''noiseCtx'' ''putImageData''
            [VData (noise (randoms h)), VNum (Num 0), VNum (Num 0)],
          Assign ''ctx'' ''globalAlpha'' (VNum (Num 0.15)),
          Assign ''ctx'' ''globalCompositeOperation'' (VStr (js ''overlay'')),
          Call ''ctx'' ''drawImage'' [VObj ''noiseCanvas'', VNum cardX, VNum cardY],
          Assign ''ctx'' ''globalAlpha'' (VNum (Num 1)),
          Assign ''ctx'' ''globalCompositeOperation'' (VStr (js ''source-over'')),
          Call ''ctx'' ''restore'' []])"

text \<open>
  Lines 200 to 279: the text, clipped to the card. The three shadow colours are built
  from the channels of the text colour.
\<close>

definition rgbaText :: "jsnum \<Rightarrow> jsnum \<Rightarrow> jsnum \<Rightarrow> string \<Rightarrow> val" where
  "rgbaText r g b a =
     VTmpl [VStr (js ''rgba(''), VNum r, VStr (js '', ''), VNum g, VStr (js '', ''), VNum b,
            VStr (js ('', '' @ a @ '')''))]"

definition drawText_p0 ::
  "host \<Rightarrow> jsnum \<Rightarrow> jsnum \<times> jsnum \<times> jsnum \<times> jsnum \<Rightarrow> jsnum \<Rightarrow> event list" where
  "drawText_p0 h scale box cardRadius =
     (let (cardX, cardY, cardWidth, cardHeight) = box;
          text = textContent h;
          fontSize = jmul (parseFloat h (getComputed (txtStyle h) ''font-size'')) scale;
          fontWeight = getComputed (txtStyle h) ''font-weight'';
          fontFamily = getComputed (txtStyle h) ''font-family'';
          textColor = getComputed (txtStyle h) ''color'';
          textX = jadd cardX (jdiv cardWidth (Num 2));
          textY = jadd (jadd cardY (jdiv cardHeight (Num 2)))
                    (jdiv (actualBoundingBoxAscent h) (Num 2));
          (r, g, b) = textRGB textColor;
          shadow1 = rgbaText r g b ''0.25'';
          r2 = Math_round (jdiv (jmul r (Num 0.2)) (Num 0.34));
          g2 = Math_round (jdiv (jmul g (Num 0.2)) (Num 0.34));
          b2 = Math_round (jdiv (jmul b (Num 0.2)) (Num 0.34));
          shadow2 = rgbaText r2 g2 b2 ''0.34'';
          r3 = Math_round (jadd (jmul r (Num 0.2)) (jmul (Num 255) (Num 0.8)));
          g3 = Math_round (jadd (jmul g (Num 0.2)) (jmul (Num 255) (Num 0.8)));
          b3 = Math_round (jadd (jmul b (Num 0.2)) (jmul (Num 255) (Num 0.8)));
          shadow3 = rgbaText r3 g3 b3 ''1''
      in [Call ''ctx'' ''save'' [],
          Call ''ctx'' ''beginPath'' [],
          Call ''ctx'' ''roundRect''
            [VNum cardX, VNum cardY, VNum cardWidth, VNum cardHeight, VNum cardRadius],
          Call ''ctx'' ''clip'' [],
          Assign ''ctx'' ''font''
            (VTmpl [VStr fontWeight, VStr (js '' ''), VNum fontSize, VStr (js ''px ''),
                    VStr fontFamily]),
          Assign ''ctx'' ''textAlign'' (VStr (js ''center'')),
          Assign ''ctx'' ''textBaseline'' (VStr (js ''alphabetic'')),
          Bind ''metrics'' ''ctx'' ''measureText'' [VStr text],
          Assign ''ctx'' ''shadowColor'' shadow1,
          Assign ''ctx'' ''shadowBlur'' (VNum (jmul (Num 5) scale)),
          Assign ''ctx'' ''shadowOffsetX'' (VNum (Num 0)),
          Assign ''ctx'' ''shadowOffsetY'' (VNum (jmul (Num (- 2)) scale)),
          Assign ''ctx'' ''fillStyle'' (VStr textColor),
          Call ''ctx'' ''fillText'' [VStr text, VNum textX, VNum textY],
          Assign ''ctx'' ''shadowColor'' shadow2,
          Assign ''ctx'' ''shadowBlur'' (VNum (jmul (Num 0.5) scale)),
          Assign ''ctx'' ''shadowOffsetY'' (VNum (jmul (Num (- 1)) scale)),
          Call ''ctx'' ''fillText'' [VStr text, VNum textX, VNum textY],
          Assign ''ctx'' ''shadowColor'' shadow3,
          Assign ''ctx'' ''shadowBlur'' (VNum (jmul (Num 2) scale)),
          Assign ''ctx'' ''shadowOffsetY'' (VNum (jmul (Num 1) scale)),
          Call ''ctx'' ''fillText'' [VStr text, VNum textX, VNum textY],
          Assign ''ctx'' ''shadowColor'' (VStr (js ''transparent'')),
          Assign ''ctx'' ''shadowBlur'' (VNum (Num 0)),
          Assign ''ctx'' ''shadowOffsetX'' (VNum (Num 0)),
          Assign ''ctx'' ''shadowOffsetY'' (VNum (Num 0)),
          Assign ''ctx'' ''globalAlpha'' (VNum (Num 0.8)),
          Assign ''ctx'' ''globalCompositeOperation'' (VStr (js ''multiply'')),
          Assign ''ctx'' ''fillStyle'' (VStr textColor),
          Call ''ctx'' ''fillText'' [VStr text, VNum textX, VNum textY],
          Call ''ctx'' ''restore'' []])"

text \<open>
  The card, lines 63 to 198, and \<open>exportBanner\<close>, lines 16 to 298. The background is
  drawn with the short form of \<open>drawImage\<close> (line 61), which takes the whole image. The
  download of lines 281 to 292 is the body of \<open>downloadCanvas\<close>, statement for
  statement.
\<close>

definition drawCard_p0 :: "host \<Rightarrow> jsnum \<Rightarrow> jsnum \<Rightarrow> jsnum \<Rightarrow> event list" where
  "drawCard_p0 h scale targetWidth targetHeight =
     (let box = cardBox h targetWidth targetHeight;
          cardRadius = jmul (parseFloat h (getComputed (cardStyle h) ''border-radius'')) scale
      in blurredBackdrop h scale targetWidth targetHeight box
         @ boxShadows scale box cardRadius
         @ cardContent scale box
         @ clipAndDraw box cardRadius
         @ insetHighlights_p0 scale box cardRadius
         @ noiseOverlay_p0 h box)"

definition exportBanner_p0 :: "host \<Rightarrow> jsval \<Rightarrow> jsval \<Rightarrow> event list" where
  "exportBanner_p0 h fixWidth fixHeight =
     (let (targetWidth, targetHeight) =
            targetSize (previewRect h) (naturalWidth h) (naturalHeight h) fixWidth fixHeight;
          scale = jdiv targetWidth (rect_width (previewRect h));
          cardRadius = jmul (parseFloat h (getComputed (cardStyle h) ''border-radius'')) scale
      in createCanvas targetWidth targetHeight @ loadImage h
         @ (case imgLoad h of
              Pending \<Rightarrow> []
            | LoadError \<Rightarrow> catch
            | Loaded \<Rightarrow>
                [Call ''ctx'' ''drawImage''
                   [VObj ''img'', VNum (Num 0), VNum (Num 0), VNum targetWidth, VNum targetHeight]]
                @ drawCard_p0 h scale targetWidth targetHeight
                @ drawText_p0 h scale (cardBox h targetWidth targetHeight) cardRadius
                @ downloadCanvas h ''canvas'' targetWidth targetHeight))"

section \<open>Reading a trace\<close>

text \<open>
  The values assigned to a property of an object, the argument lists of the calls of a
  method of an object, and the calls that change pixels, each in program order. A
  painting call is read with its object, its method and the image it draws, when its
  first argument is one.
\<close>

fun assigned :: "string \<Rightarrow> string \<Rightarrow> event list \<Rightarrow> val list" where
  "assigned obj p [] = []"
| "assigned obj p (Assign obj' p' v # es) =
     (if obj' = obj \<and> p' = p then v # assigned obj p es else assigned obj p es)"
| "assigned obj p (_ # es) = assigned obj p es"

fun called :: "string \<Rightarrow> string \<Rightarrow> event list \<Rightarrow> val list list" where
  "called obj m [] = []"
| "called obj m (Call obj' m' args # es) =
     (if obj' = obj \<and> m' = m then args # called obj m es else called obj m es)"
| "called obj m (_ # es) = called obj m es"

definition painting :: "string list" where
  "painting =
     [''drawImage'', ''putImageData'', ''canvasRGB'', ''fill'', ''stroke'', ''fillRect'',
      ''fillText'']"

fun draws :: "event list \<Rightarrow> (string \<times> string \<times> string) list" where
  "draws [] = []"
| "draws (Call obj m args # es) =
     (if m \<in> set painting
      then (obj, m, case args of VObj s # _ \<Rightarrow> s | _ \<Rightarrow> []) # draws es
      else draws es)"
| "draws (_ # es) = draws es"

text \<open>What a trace that ends in the \<open>catch\<close> block after the load shows.\<close>

definition aborted :: "host \<Rightarrow> event list \<Rightarrow> bool" where
  "aborted h t =
     (draws t = []
      \<and> called ''ctx'' ''drawImage'' t = []
      \<and> called ''canvas'' ''toBlob'' t = []
      \<and> called ''a'' ''click'' t = []
      \<and> assigned ''a'' ''download'' t = []
      \<and> called ''window'' ''alert'' t
          = [[VStr (js ''Failed to export banner. Please try again.'')]]
      \<and> called ''console'' ''error'' t = [[VStr (js ''Error exporting banner:''), VObj ''error'']]
      \<and> assigned ''img'' ''src'' t = [VStr (imgSrc h)]
      \<and> drop (length t - 2) t = catch)"

text \<open>
  \<open>comes_after a b xs\<close>: \<open>a\<close> occurs in \<open>xs\<close> somewhere after the first \<open>b\<close>. The
  three painting calls that the order of the card turns on.
\<close>

definition comes_after :: "'a \<Rightarrow> 'a \<Rightarrow> 'a list \<Rightarrow> bool" where
  "comes_after a b xs = (a \<in> set (drop 1 (dropWhile (\<lambda>x. x \<noteq> b) xs)))"

definition noise_composite :: "string \<times> string \<times> string" where
  "noise_composite = (''ctx'', ''drawImage'', ''noiseCanvas'')"

definition border_stroke :: "string \<times> string \<times> string" where
  "border_stroke = (''ctx'', ''stroke'', [])"

definition highlight_band :: "string \<times> string \<times> string" where
  "highlight_band = (''ctx'', ''fillRect'', [])"

definition shadow_fill :: "string \<times> string \<times> string" where
  "shadow_fill = (''ctx'', ''fill'', [])"

definition card_composite :: "string \<times> string \<times> string" where
  "card_composite = (''ctx'', ''drawImage'', ''cardCanvas'')"

text \<open>
  The drawing state of the main context, as far as a \<open>fill\<close> depends on it: the last
  value assigned to each property (none, while the property has its default), the stack
  of \<open>save\<close> and \<open>restore\<close>, and the current path, which \<open>beginPath\<close> empties and the
  path calls extend. \<open>fills\<close> lists, for every \<open>fill\<close> on the main context, the path
  filled and the shadow colour, shadow blur, vertical shadow offset and fill style in
  force.
\<close>

type_synonym pen = "string \<Rightarrow> val option"

definition path_calls :: "string list" where
  "path_calls = [''moveTo'', ''lineTo'', ''quadraticCurveTo'', ''closePath'', ''roundRect'']"

fun fills ::
  "pen \<Rightarrow> pen list \<Rightarrow> event list \<Rightarrow> event list
   \<Rightarrow> (event list \<times> val option \<times> val option \<times> val option \<times> val option) list" where
  "fills pen saved path [] = []"
| "fills pen saved path (Assign obj p v # es) =
     (if obj = ''ctx'' then fills (pen(p \<mapsto> v)) saved path es else fills pen saved path es)"
| "fills pen saved path (Call obj m args # es) =
     (if obj \<noteq> ''ctx'' then fills pen saved path es
      else if m = ''save'' then fills pen (pen # saved) path es
      else if m = ''restore'' then
        (case saved of [] \<Rightarrow> fills pen [] path es | p # ps \<Rightarrow> fills p ps path es)
      else if m = ''beginPath'' then fills pen saved [] es
      else if m \<in> set path_calls then fills pen saved (path @ [Call obj m args]) es
      else if m = ''fill'' then
        (path, pen ''shadowColor'', pen ''shadowBlur'', pen ''shadowOffsetY'', pen ''fillStyle'')
        # fills pen saved path es
      else fills pen saved path es)"
| "fills pen saved path (Bind x obj m args # es) = fills pen saved path es"

text \<open>An event that leaves the drawing state alone, and one that is not a fill.\<close>

fun inert :: "event \<Rightarrow> bool" where
  "inert (Assign obj p v) = (obj \<noteq> ''ctx'')"
| "inert (Call obj m args) =
     (obj \<noteq> ''ctx'' \<or> m \<notin> set ([''save'', ''restore'', ''beginPath'', ''fill''] @ path_calls))"
| "inert (Bind x obj m args) = True"

fun no_fill :: "event \<Rightarrow> bool" where
  "no_fill (Call obj m args) = (obj \<noteq> ''ctx'' \<or> m \<noteq> ''fill'')"
| "no_fill _ = True"

text \<open>
  The path that \<open>roundRect\<close> of \<open>src/js/export.js\<close> leaves as the current one (its
  calls after \<open>beginPath\<close>), the path of \<open>src/unnamed/part_000\<close>, and the three
  shadow layers of the latter as \<open>fills\<close> reports them.
\<close>

definition outline :: "jsnum \<times> jsnum \<times> jsnum \<times> jsnum \<Rightarrow> jsnum \<Rightarrow> event list" where
  "outline box r = (case box of (x, y, w, e) \<Rightarrow> tl (roundRect ''ctx'' x y w e r))"

definition outline_p0 :: "jsnum \<times> jsnum \<times> jsnum \<times> jsnum \<Rightarrow> jsnum \<Rightarrow> event list" where
  "outline_p0 box r =
     (case box of (x, y, w, e) \<Rightarrow>
        [Call ''ctx'' ''roundRect'' [VNum x, VNum y, VNum w, VNum e, VNum r]])"

definition three_layers ::
  "event list \<Rightarrow> jsnum \<Rightarrow> (event list \<times> val option \<times> val option \<times> val option \<times> val option) list"
  where
  "three_layers path s =
     [(path, Some (VStr (js ''rgba(10, 10, 10, 0.1)'')),
       Some (VNum (jmul (Num 4) s)), Some (VNum (jmul (Num 2) s)),
       Some (VStr (js ''rgba(255, 255, 255, 0.02)''))),
      (path, Some (VStr (js ''rgba(10, 10, 10, 0.2)'')),
       Some (VNum (jmul (Num 16) s)), Some (VNum (jmul (Num 8) s)),
       Some (VStr (js ''rgba(255, 255, 255, 0.02)''))),
      (path, Some (VStr (js ''rgba(10, 10, 10, 0.3)'')),
       Some (VNum (jmul (Num 48) s)), Some (VNum (jmul (Num 16) s)),
       Some (VStr (js ''rgba(255, 255, 255, 0.02)'')))]"

text \<open>
  The lengths that an export hands to the canvas, in program order: the radius of the
  blur, every shadow blur and vertical shadow offset set on the main context, the size in
  the font, the height of the highlight band (the one \<open>fillRect\<close> on the main context)
  and the corner radius of each \<open>roundRect\<close> of the context. \<open>paths\<close> keeps the calls
  that build a path on the main context, where \<open>src/js/export.js\<close> uses its radius.
\<close>

fun length_of :: "event \<Rightarrow> (string \<times> jsnum) list" where
  "length_of (Assign obj p v) =
     (if obj = ''ctx'' \<and> p \<in> set [''shadowBlur'', ''shadowOffsetY''] then
        (case v of VNum n \<Rightarrow> [(p, n)] | _ \<Rightarrow> [])
      else if obj = ''ctx'' \<and> p = ''font'' then
        (case v of VTmpl [weight, space, VNum n, px, family] \<Rightarrow> [(''font-size'', n)] | _ \<Rightarrow> [])
      else [])"
| "length_of (Call obj m args) =
     (if obj = ''StackBlur'' \<and> m = ''canvasRGB'' then
        (case args of [c, x, y, w, e, VNum n] \<Rightarrow> [(''blur'', n)] | _ \<Rightarrow> [])
      else if obj = ''ctx'' \<and> m = ''fillRect'' then
        (case args of [x, y, w, VNum n] \<Rightarrow> [(''band'', n)] | _ \<Rightarrow> [])
      else if obj = ''ctx'' \<and> m = ''roundRect'' then
        (case args of [x, y, w, e, VNum n] \<Rightarrow> [(''radius'', n)] | _ \<Rightarrow> [])
      else [])"
| "length_of (Bind x obj m args) = []"

definition lengths :: "event list \<Rightarrow> (string \<times> jsnum) list" where
  "lengths t = concat (map length_of t)"

fun paths :: "event list \<Rightarrow> event list" where
  "paths [] = []"
| "paths (Call obj m args # es) =
     (if obj = ''ctx'' \<and> m \<in> set (''beginPath'' # path_calls) then Call obj m args # paths es
      else paths es)"
| "paths (_ # es) = paths es"

text \<open>The lengths of one round of the three box shadows of \<open>src/unnamed/part_000\<close>.\<close>

definition layer_lengths :: "jsnum \<Rightarrow> jsnum \<Rightarrow> (string \<times> jsnum) list" where
  "layer_lengths s r =
     [(''shadowBlur'', jmul (Num 4) s), (''shadowOffsetY'', jmul (Num 2) s), (''radius'', r),
      (''shadowBlur'', jmul (Num 16) s), (''shadowOffsetY'', jmul (Num 8) s), (''radius'', r),
      (''shadowBlur'', jmul (Num 48) s), (''shadowOffsetY'', jmul (Num 16) s), (''radius'', r)]"

section \<open>The words of the specification\<close>

text \<open>
  A fixed dimension that is given is a positive number of pixels; one that is not given
  is \<open>null\<close> or left out. \<open>fixed\<close> reads the argument as the specification sees it.
\<close>

definition fixed :: "jsval \<Rightarrow> real option" where
  "fixed v = (case v of Number (Num w) \<Rightarrow> Some w | _ \<Rightarrow> None)"

definition pixels :: "jsval \<Rightarrow> bool" where
  "pixels v =
     (case v of Null \<Rightarrow> True | Undefined \<Rightarrow> True | Number (Num w) \<Rightarrow> 0 < w
      | Number _ \<Rightarrow> False)"

text \<open>
  The three rules of the geometry resolver (4.1), with the rounding that the claim adds
  to the derived axis.
\<close>

definition resolveTarget ::
  "real \<Rightarrow> real \<Rightarrow> real \<Rightarrow> real \<Rightarrow> real option \<Rightarrow> real option \<Rightarrow> real \<times> real" where
  "resolveTarget previewWidth previewHeight imageWidth imageHeight fixedWidth fixedHeight =
     (let previewAspect = previewWidth / previewHeight;
          imageAspect = imageWidth / imageHeight
      in case (fixedWidth, fixedHeight) of
           (Some fw, Some fh) \<Rightarrow> (fw, fh)
         | (None, None) \<Rightarrow> (imageWidth, imageHeight)
         | _ \<Rightarrow>
             if previewAspect > imageAspect
             then (imageWidth, of_int (round (imageWidth / previewAspect)))
             else (of_int (round (imageHeight * previewAspect)), imageHeight))"

text \<open>Real numbers as JavaScript numbers.\<close>

definition Nums :: "real \<times> real \<Rightarrow> jsnum \<times> jsnum" where
  "Nums p = (Num (fst p), Num (snd p))"







text \<open>The target for a degenerate aspect ratio, branch by branch.\<close>

definition degenerate ::
  "jsval \<Rightarrow> jsval \<Rightarrow> jsnum \<times> jsnum \<Rightarrow> jsnum \<times> jsnum \<Rightarrow> jsnum \<times> jsnum" where
  "degenerate fw fh one none =
     (if truthy (js_and fw fh) then (ToNumber fw, ToNumber fh)
      else if truthy (js_or fw fh) then one else none)"





text \<open>
  The crop of the geometry resolver (4.1): the source cropped about its centre to the
  aspect ratio of the target, on its longer axis.
\<close>

definition centredCrop :: "real \<Rightarrow> real \<Rightarrow> real \<Rightarrow> real \<times> real \<times> real \<times> real" where
  "centredCrop imageWidth imageHeight targetAspect =
     (if targetAspect > imageWidth / imageHeight then
        (0, (imageHeight - imageWidth / targetAspect) / 2, imageWidth, imageWidth / targetAspect)
      else if targetAspect < imageWidth / imageHeight then
        ((imageWidth - imageHeight * targetAspect) / 2, 0, imageHeight * targetAspect, imageHeight)
      else (0, 0, imageWidth, imageHeight))"

definition Nums4 :: "real \<times> real \<times> real \<times> real \<Rightarrow> jsnum \<times> jsnum \<times> jsnum \<times> jsnum" where
  "Nums4 c = (case c of (sx, sy, sw, sh) \<Rightarrow> (Num sx, Num sy, Num sw, Num sh))"

section \<open>Sample inputs\<close>

text \<open>
  A concrete call for the examples: a 400 by 200 preview over a 1200 by 800 image, with
  the card on the middle half of the preview.
\<close>

definition sample_rect :: rect where
  "sample_rect = \<lparr>rect_left = Num 0, rect_top = Num 0, rect_width = Num 400,
                   rect_height = Num 200\<rparr>"

definition sample_host :: host where
  "sample_host =
     \<lparr>previewRect = sample_rect, bannerRect = sample_rect,
      cardRect = \<lparr>rect_left = Num 100, rect_top = Num 50, rect_width = Num 200,
                  rect_height = Num 100\<rparr>,
      naturalWidth = 1200, naturalHeight = 800, imgSrc = js ''banner.png'', imgLoad = Loaded,
      cardStyle = (\<lambda>p. if p = ''border-radius'' then js ''16px'' else []),
      txtStyle = (\<lambda>p. if p = ''font-size'' then js ''24px''
                       else if p = ''color'' then js ''rgb(250, 250, 250)'' else []),
      textContent = js ''Hello'',
      parseFloat = (\<lambda>s. if s = js ''16px'' then Num 16 else if s = js ''24px'' then Num 24
                         else NaN),
      readBack = (\<lambda>p v. v), StackBlur_defined = True,
      blurData = [10, 20, 30, 255], randoms = [1 / 2],
      actualBoundingBoxAscent = Num 18, isoDate = js ''2025-01-01T00:00:00.000Z''\<rparr>"

text \<open>A preview that has collapsed to nothing.\<close>

definition zero_rect :: rect where
  "zero_rect = \<lparr>rect_left = Num 0, rect_top = Num 0, rect_width = Num 0, rect_height = Num 0\<rparr>"

section \<open>The target size\<close>

lemma exportSize_resolveTarget:
  assumes "0 < pw" "0 < ph" "0 < W" "0 < H" "pixels fw" "pixels fh"
    "rect_width r = Num pw" "rect_height r = Num ph"
  shows "exportSize r W H fw fh =
         Nums (resolveTarget pw ph (real W) (real H) (fixed fw) (fixed fh))"
  using assms
  by (auto simp: pixels_def exportSize_def resolveTarget_def Nums_def fixed_def js_and_def
      js_or_def jgt_def round_def Let_def split: jsval.splits jsnum.splits)

lemma targetSize_resolveTarget:
  assumes "0 < pw" "0 < ph" "0 < W" "0 < H" "pixels fw" "pixels fh"
    "rect_width r = Num pw" "rect_height r = Num ph"
  shows "targetSize r W H fw fh =
         Nums (resolveTarget pw ph (real W) (real H) (fixed fw) (fixed fh))"
  using assms
  by (auto simp: pixels_def targetSize_def resolveTarget_def Nums_def fixed_def js_and_def
      js_or_def jgt_def round_def Let_def split: jsval.splits jsnum.splits)





section \<open>A fixed dimension of zero\<close>

lemma draws_append [simp]: "draws (xs @ ys) = draws xs @ draws ys"
  by (induction xs rule: draws.induct) auto

lemma assigned_append [simp]: "assigned obj p (xs @ ys) = assigned obj p xs @ assigned obj p ys"
  by (induction obj p xs rule: assigned.induct) auto

lemma called_append [simp]: "called obj m (xs @ ys) = called obj m xs @ called obj m ys"
  by (induction obj m xs rule: called.induct) auto

lemma exportSize_zero:
  "exportSize r W H (Number (Num 0)) fh = exportSize r W H Null fh"
  "exportSize r W H fw (Number (Num 0)) = exportSize r W H fw Null"
  by (simp_all add: exportSize_def js_and_def js_or_def)

lemma targetSize_zero:
  "targetSize r W H (Number (Num 0)) fh = targetSize r W H Null fh"
  "targetSize r W H fw (Number (Num 0)) = targetSize r W H fw Null"
  by (simp_all add: targetSize_def js_and_def js_or_def)

lemma sourceCrop_zero:
  "sourceCrop W H (Number (Num 0)) fh ew eh = sourceCrop W H Null fh ew eh"
  "sourceCrop W H fw (Number (Num 0)) ew eh = sourceCrop W H fw Null ew eh"
  by (simp_all add: sourceCrop_def js_or_def)

lemma both_fixed_size:
  "truthy (js_and fw fh) \<Longrightarrow> exportSize r W H fw fh = (ToNumber fw, ToNumber fh)"
  "truthy (js_and fw fh) \<Longrightarrow> targetSize r W H fw fh = (ToNumber fw, ToNumber fh)"
  by (simp_all add: exportSize_def targetSize_def)

lemma both_fixed_nonzero:
  "truthy (js_and fw fh) \<Longrightarrow> ToNumber fw \<noteq> Num 0 \<and> ToNumber fh \<noteq> Num 0"
  by (cases fw rule: truthy.cases; cases fh rule: truthy.cases)
     (auto simp: js_and_def split: if_splits)

lemma drawBackground_zero:
  "drawBackground h (Number (Num 0)) fh ew eh = drawBackground h Null fh ew eh"
  "drawBackground h fw (Number (Num 0)) ew eh = drawBackground h fw Null ew eh"
  by (simp_all add: drawBackground_def sourceCrop_zero)

text \<open>
  C10. A \<open>fixWidth\<close> (or \<open>fixHeight\<close>) of 0 is treated as if it were not given: the
  whole export is the one with \<open>null\<close> in its place, in both versions. With 0 and
  nothing else the target is the natural image size; with 0 and a positive other
  dimension the target follows the rule for exactly one fixed dimension; and where the
  target is taken from the two fixed values, neither of them is 0.
\<close>

theorem zero_fixed_dimension_is_absent:
  "exportBanner h (Number (Num 0)) fh = exportBanner h Null fh
   \<and> exportBanner h fw (Number (Num 0)) = exportBanner h fw Null
   \<and> exportBanner_p0 h (Number (Num 0)) fh = exportBanner_p0 h Null fh
   \<and> exportBanner_p0 h fw (Number (Num 0)) = exportBanner_p0 h fw Null
   \<and> exportSize r W H (Number (Num 0)) Null = (Num (real W), Num (real H))
   \<and> targetSize r W H (Number (Num 0)) Null = (Num (real W), Num (real H))
   \<and> exportSize r W H Null (Number (Num 0)) = (Num (real W), Num (real H))
   \<and> targetSize r W H Null (Number (Num 0)) = (Num (real W), Num (real H))
   \<and> (0 < pw \<and> 0 < ph \<and> 0 < W \<and> 0 < H \<and> 0 < y
        \<and> rect_width r = Num pw \<and> rect_height r = Num ph \<longrightarrow>
      exportSize r W H (Number (Num 0)) (Number (Num y))
        = Nums (resolveTarget pw ph (real W) (real H) None (Some y))
      \<and> targetSize r W H (Number (Num 0)) (Number (Num y))
        = Nums (resolveTarget pw ph (real W) (real H) None (Some y))
      \<and> exportSize r W H (Number (Num y)) (Number (Num 0))
        = Nums (resolveTarget pw ph (real W) (real H) (Some y) None)
      \<and> targetSize r W H (Number (Num y)) (Number (Num 0))
        = Nums (resolveTarget pw ph (real W) (real H) (Some y) None))
   \<and> (truthy (js_and fw fh) \<longrightarrow>
        exportSize r W H fw fh = (ToNumber fw, ToNumber fh)
      \<and> targetSize r W H fw fh = (ToNumber fw, ToNumber fh)
      \<and> ToNumber fw \<noteq> Num 0 \<and> ToNumber fh \<noteq> Num 0)"
proof -
  have a: "exportBanner h (Number (Num 0)) fh = exportBanner h Null fh"
    "exportBanner h fw (Number (Num 0)) = exportBanner h fw Null"
    by (simp_all add: exportBanner_def drawBackground_zero exportSize_zero Let_def
        split: prod.splits load.splits)
  have b: "exportBanner_p0 h (Number (Num 0)) fh = exportBanner_p0 h Null fh"
    "exportBanner_p0 h fw (Number (Num 0)) = exportBanner_p0 h fw Null"
    by (simp_all add: exportBanner_p0_def targetSize_zero split: prod.splits)
  have c: "exportSize r W H Null Null = (Num (real W), Num (real H))"
    "targetSize r W H Null Null = (Num (real W), Num (real H))"
    by (simp_all add: exportSize_def targetSize_def js_and_def js_or_def)
  have d: "exportSize r W H (Number (Num 0)) (Number (Num y))
        = Nums (resolveTarget pw ph (real W) (real H) None (Some y))
      \<and> targetSize r W H (Number (Num 0)) (Number (Num y))
        = Nums (resolveTarget pw ph (real W) (real H) None (Some y))
      \<and> exportSize r W H (Number (Num y)) (Number (Num 0))
        = Nums (resolveTarget pw ph (real W) (real H) (Some y) None)
      \<and> targetSize r W H (Number (Num y)) (Number (Num 0))
        = Nums (resolveTarget pw ph (real W) (real H) (Some y) None)"
    if "0 < pw" "0 < ph" "0 < W" "0 < H" "0 < y" "rect_width r = Num pw" "rect_height r = Num ph"
    using that
      exportSize_resolveTarget [of pw ph W H Null "Number (Num y)" r]
      targetSize_resolveTarget [of pw ph W H Null "Number (Num y)" r]
      exportSize_resolveTarget [of pw ph W H "Number (Num y)" Null r]
      targetSize_resolveTarget [of pw ph W H "Number (Num y)" Null r]
    by (simp add: exportSize_zero targetSize_zero pixels_def fixed_def)
  show ?thesis
    using a b c d both_fixed_size [of fw fh r W H] both_fixed_nonzero [of fw fh]
    by (simp add: exportSize_zero targetSize_zero)
qed

theorem zero_fixed_dimension_is_absent_witness:
  "exportBanner sample_host (Number (Num 0)) (Number (Num 300))
     = exportBanner sample_host Null (Number (Num 300))
   \<and> exportBanner_p0 sample_host (Number (Num 600)) (Number (Num 0))
     = exportBanner_p0 sample_host (Number (Num 600)) Null
   \<and> exportSize sample_rect 1200 800 (Number (Num 0)) Null = (Num 1200, Num 800)
   \<and> exportSize sample_rect 1200 800 (Number (Num 0)) (Number (Num 300)) = (Num 1200, Num 600)
   \<and> targetSize sample_rect 1200 800 (Number (Num 300)) (Number (Num 0)) = (Num 1200, Num 600)
   \<and> exportSize sample_rect 1200 800 (Number (Num 600)) (Number (Num 300)) = (Num 600, Num 300)"
  using zero_fixed_dimension_is_absent
    [where h = sample_host and fh = "Number (Num 300)" and fw = "Number (Num 600)"
       and r = sample_rect and W = 1200 and H = 800 and pw = 400 and ph = 200 and y = 300]
  by (simp add: sample_rect_def js_and_def Nums_def resolveTarget_def round_def)

section \<open>A failed image load\<close>

lemma exportBanner_LoadError:
  "imgLoad h = LoadError \<Longrightarrow>
   exportBanner h fw fh =
     createCanvas (fst (exportSize (previewRect h) (naturalWidth h) (naturalHeight h) fw fh))
       (snd (exportSize (previewRect h) (naturalWidth h) (naturalHeight h) fw fh))
     @ loadImage h @ catch"
  by (simp add: exportBanner_def Let_def split: prod.splits)

lemma exportBanner_p0_LoadError:
  "imgLoad h = LoadError \<Longrightarrow>
   exportBanner_p0 h fw fh =
     createCanvas (fst (targetSize (previewRect h) (naturalWidth h) (naturalHeight h) fw fh))
       (snd (targetSize (previewRect h) (naturalWidth h) (naturalHeight h) fw fh))
     @ loadImage h @ catch"
  by (simp add: exportBanner_p0_def Let_def split: prod.splits)

lemma aborted_setup: "aborted h (createCanvas w e @ loadImage h @ catch)"
  by (simp add: aborted_def createCanvas_def loadImage_def catch_def painting_def)

text \<open>
  C7. When the image fails to load, the export (in both versions) ends in the \<open>catch\<close>
  block right after the load: nothing was painted on any canvas, no blob was made and no
  download was started, the error was logged once and the one generic alert shown once,
  and the image source was set once only.
\<close>

theorem decode_failure_aborts_export:
  assumes "imgLoad h = LoadError"
  shows "aborted h (exportBanner h fw fh) \<and> aborted h (exportBanner_p0 h fw fh)"
  using assms
  by (simp add: exportBanner_LoadError exportBanner_p0_LoadError aborted_setup)

theorem decode_failure_aborts_export_witness:
  "draws (exportBanner (sample_host\<lparr>imgLoad := LoadError\<rparr>) (Number (Num 600)) Null) = []
   \<and> called ''canvas'' ''toBlob''
       (exportBanner (sample_host\<lparr>imgLoad := LoadError\<rparr>) (Number (Num 600)) Null) = []
   \<and> called ''window'' ''alert''
       (exportBanner (sample_host\<lparr>imgLoad := LoadError\<rparr>) (Number (Num 600)) Null)
     = [[VStr (js ''Failed to export banner. Please try again.'')]]
   \<and> draws (exportBanner_p0 (sample_host\<lparr>imgLoad := LoadError\<rparr>) (Number (Num 600)) Null) = []
   \<and> called ''a'' ''click''
       (exportBanner_p0 (sample_host\<lparr>imgLoad := LoadError\<rparr>) (Number (Num 600)) Null) = []
   \<and> called ''console'' ''error''
       (exportBanner_p0 (sample_host\<lparr>imgLoad := LoadError\<rparr>) (Number (Num 600)) Null)
     = [[VStr (js ''Error exporting banner:''), VObj ''error'']]"
  using decode_failure_aborts_export
    [of "sample_host\<lparr>imgLoad := LoadError\<rparr>" "Number (Num 600)" Null]
  by (simp add: aborted_def)

section \<open>The saturation boost\<close>







lemma replicate3: "replicate 3 x = [x, x, x]"
  by (simp add: numeral_3_eq_3)

lemma called_roundRect [simp]: "c \<noteq> obj \<Longrightarrow> called obj m (roundRect c x y w e r) = []"
  by (simp add: roundRect_def)









section \<open>A preview or an image of zero height\<close>

text \<open>What the synchronous part of the call does, up to the image load that is awaited.\<close>

lemma exportBanner_starts:
  "take 9 (exportBanner h fw fh) =
     createCanvas (fst (exportSize (previewRect h) (naturalWidth h) (naturalHeight h) fw fh))
       (snd (exportSize (previewRect h) (naturalWidth h) (naturalHeight h) fw fh))
     @ loadImage h"
  by (simp add: exportBanner_def createCanvas_def loadImage_def Let_def split: prod.splits)

lemma exportBanner_p0_starts:
  "take 9 (exportBanner_p0 h fw fh) =
     createCanvas (fst (targetSize (previewRect h) (naturalWidth h) (naturalHeight h) fw fh))
       (snd (targetSize (previewRect h) (naturalWidth h) (naturalHeight h) fw fh))
     @ loadImage h"
  by (simp add: exportBanner_p0_def createCanvas_def loadImage_def Let_def split: prod.splits)

lemma flat_preview:
  assumes "rect_height r = Num 0" "rect_width r = Num pw" "0 \<le> pw" "0 < H"
  shows "exportSize r W H fw fh =
           degenerate fw fh (if 0 < pw then (Num (real W), Num 0) else (NaN, Num (real H)))
             (Num (real W), Num (real H))"
    and "targetSize r W H fw fh =
           degenerate fw fh (if 0 < pw then (Num (real W), Num 0) else (NaN, Num (real H)))
             (Num (real W), Num (real H))"
  using assms
  by (auto simp: exportSize_def targetSize_def degenerate_def signed_inf_def jgt_def Let_def)

lemma flat_image:
  assumes "rect_height r = Num ph" "rect_width r = Num pw" "0 \<le> pw" "0 < ph"
  shows "exportSize r W 0 fw fh = degenerate fw fh (Num 0, Num 0) (Num (real W), Num 0)"
    and "targetSize r W 0 fw fh = degenerate fw fh (Num 0, Num 0) (Num (real W), Num 0)"
  using assms
  by (auto simp: exportSize_def targetSize_def degenerate_def signed_inf_def jgt_def Let_def)

text \<open>
  C8, as the code has it. Nothing in either version checks the heights, and the
  arithmetic of the geometry cannot throw: the aspect ratio of a preview of zero height is
  \<open>Infinity\<close> or \<open>NaN\<close>, the three branches are applied to it, and the call goes on to
  create the canvas with that size and to load the image. With both dimensions fixed the
  target is the fixed size and with none it is the natural size; with exactly one, a
  preview of zero height and positive width gives \<open>(naturalWidth, 0)\<close>, a preview of
  zero height and zero width gives \<open>(NaN, naturalHeight)\<close>, and an image of zero
  height gives \<open>(0, 0)\<close>.
\<close>

theorem zero_height_is_not_rejected:
  "(rect_height r = Num 0 \<and> rect_width r = Num pw \<and> 0 \<le> pw \<and> 0 < H \<longrightarrow>
      exportSize r W H fw fh =
        degenerate fw fh (if 0 < pw then (Num (real W), Num 0) else (NaN, Num (real H)))
          (Num (real W), Num (real H))
    \<and> targetSize r W H fw fh =
        degenerate fw fh (if 0 < pw then (Num (real W), Num 0) else (NaN, Num (real H)))
          (Num (real W), Num (real H)))
   \<and> (rect_height r = Num ph \<and> rect_width r = Num pw \<and> 0 \<le> pw \<and> 0 < ph \<longrightarrow>
      exportSize r W 0 fw fh = degenerate fw fh (Num 0, Num 0) (Num (real W), Num 0)
    \<and> targetSize r W 0 fw fh = degenerate fw fh (Num 0, Num 0) (Num (real W), Num 0))
   \<and> take 9 (exportBanner h fw fh) =
       createCanvas (fst (exportSize (previewRect h) (naturalWidth h) (naturalHeight h) fw fh))
         (snd (exportSize (previewRect h) (naturalWidth h) (naturalHeight h) fw fh))
       @ loadImage h
   \<and> take 9 (exportBanner_p0 h fw fh) =
       createCanvas (fst (targetSize (previewRect h) (naturalWidth h) (naturalHeight h) fw fh))
         (snd (targetSize (previewRect h) (naturalWidth h) (naturalHeight h) fw fh))
       @ loadImage h"
  using flat_preview [of r pw H W fw fh] flat_image [of r ph pw W fw fh]
    exportBanner_starts [of h fw fh] exportBanner_p0_starts [of h fw fh]
  by simp

theorem zero_height_is_not_rejected_witness:
  "exportSize (sample_rect\<lparr>rect_height := Num 0\<rparr>) 1200 800 (Number (Num 600)) Null
     = (Num 1200, Num 0)
   \<and> targetSize zero_rect 1200 800 Null (Number (Num 600)) = (NaN, Num 800)
   \<and> exportSize sample_rect 1200 0 (Number (Num 600)) Null = (Num 0, Num 0)
   \<and> take 9 (exportBanner (sample_host\<lparr>previewRect := zero_rect\<rparr>) (Number (Num 600)) Null)
     = createCanvas NaN (Num 800) @ loadImage sample_host"
  using zero_height_is_not_rejected
      [where r = "sample_rect\<lparr>rect_height := Num 0\<rparr>" and pw = 400 and H = 800 and W = 1200
         and fw = "Number (Num 600)" and fh = Null]
    zero_height_is_not_rejected
      [where r = zero_rect and pw = 0 and H = 800 and W = 1200
         and fw = Null and fh = "Number (Num 600)"
         and h = "sample_host\<lparr>previewRect := zero_rect\<rparr>"]
    zero_height_is_not_rejected
      [where r = sample_rect and pw = 400 and ph = 200 and W = 1200
         and fw = "Number (Num 600)" and fh = Null
         and h = "sample_host\<lparr>previewRect := zero_rect\<rparr>"]
  by (simp add: sample_rect_def zero_rect_def degenerate_def js_and_def js_or_def
      sample_host_def loadImage_def exportSize_def signed_inf_def jgt_def)

text \<open>
  Against C8 as stated: a preview of 0 by 0 with only a fixed width makes the export
  width \<open>NaN\<close>, and the call proceeds with it.
\<close>

theorem zero_height_counterexample:
  "exportSize zero_rect 1200 800 (Number (Num 600)) Null = (NaN, Num 800)
   \<and> targetSize zero_rect 1200 800 (Number (Num 600)) Null = (NaN, Num 800)
   \<and> exportBanner (sample_host\<lparr>previewRect := zero_rect, imgLoad := Pending\<rparr>)
        (Number (Num 600)) Null
     = createCanvas NaN (Num 800) @ loadImage sample_host"
  by (simp add: exportBanner_def exportSize_def targetSize_def zero_rect_def sample_host_def
      js_and_def js_or_def signed_inf_def jgt_def loadImage_def)

section \<open>The channels of the text colour\<close>


















section \<open>The source rectangle\<close>

lemma sourceCrop_centred:
  assumes "0 < W" "0 < H" "0 < ew" "0 < eh" "truthy (js_or fw fh)"
  shows "sourceCrop W H fw fh (Num ew) (Num eh) = Nums4 (centredCrop (real W) (real H) (ew / eh))"
  using assms by (simp add: sourceCrop_def centredCrop_def Nums4_def jgt_def jsub_def Let_def)

lemma sourceCrop_whole:
  assumes "\<not> truthy (js_or fw fh)"
  shows "sourceCrop W H fw fh ew eh = (Num 0, Num 0, Num (real W), Num (real H))"
  using assms by (simp add: sourceCrop_def)

lemma centredCrop_fits:
  assumes "0 < W" "0 < H" "0 < ta" "centredCrop W H ta = (sx, sy, sw, sh)"
  shows "sw / sh = ta \<and> sx = (W - sw) / 2 \<and> sy = (H - sh) / 2
         \<and> 0 \<le> sx \<and> 0 \<le> sy \<and> 0 < sw \<and> 0 < sh \<and> (sx = 0 \<or> sy = 0)"
proof (cases "ta > W / H")
  case True
  then have "W / ta < H" using assms(1-3) by (simp add: field_simps)
  with True assms show ?thesis by (auto simp: centredCrop_def)
next
  case False
  show ?thesis
  proof (cases "ta < W / H")
    case True
    then have "H * ta < W" using assms(1-3) by (simp add: field_simps)
    with True False assms show ?thesis by (auto simp: centredCrop_def)
  next
    case F2: False
    with False have "ta = W / H" by simp
    with assms show ?thesis by (auto simp: centredCrop_def)
  qed
qed

lemma exportBanner_background:
  "imgLoad h = Loaded \<Longrightarrow>
   exportSize (previewRect h) (naturalWidth h) (naturalHeight h) fw fh = (ew, eh) \<Longrightarrow>
   take 10 (exportBanner h fw fh) =
     createCanvas ew eh @ loadImage h @ drawBackground h fw fh ew eh"
  by (simp add: exportBanner_def createCanvas_def loadImage_def drawBackground_def Let_def
      split: prod.splits)

lemma exportBanner_p0_background:
  "imgLoad h = Loaded \<Longrightarrow>
   targetSize (previewRect h) (naturalWidth h) (naturalHeight h) fw fh = (tw, th) \<Longrightarrow>
   take 10 (exportBanner_p0 h fw fh) =
     createCanvas tw th @ loadImage h
     @ [Call ''ctx'' ''drawImage''
          [VObj ''img'', VNum (Num 0), VNum (Num 0), VNum tw, VNum th]]"
  by (simp add: exportBanner_p0_def createCanvas_def loadImage_def Let_def
      split: prod.splits)

lemma drawImage_background:
  "called ''ctx'' ''drawImage'' (createCanvas ew eh @ loadImage h @ drawBackground h fw fh ew eh)
   = (case sourceCrop (naturalWidth h) (naturalHeight h) fw fh ew eh of
        (sx, sy, sw, sh) \<Rightarrow>
          [[VObj ''img'', VNum sx, VNum sy, VNum sw, VNum sh,
            VNum (Num 0), VNum (Num 0), VNum ew, VNum eh]])"
  by (simp add: createCanvas_def loadImage_def drawBackground_def split: prod.splits)

lemma drawImage_exportBanner:
  assumes "imgLoad h = Loaded"
    and "exportSize (previewRect h) (naturalWidth h) (naturalHeight h) fw fh = (ew, eh)"
  shows "called ''ctx'' ''drawImage'' (take 10 (exportBanner h fw fh)) =
     (case sourceCrop (naturalWidth h) (naturalHeight h) fw fh ew eh of
        (sx, sy, sw, sh) \<Rightarrow>
          [[VObj ''img'', VNum sx, VNum sy, VNum sw, VNum sh,
            VNum (Num 0), VNum (Num 0), VNum ew, VNum eh]])"
  unfolding exportBanner_background [OF assms] by (rule drawImage_background)

lemma drawImage_exportBanner_p0:
  assumes "imgLoad h = Loaded"
    and "targetSize (previewRect h) (naturalWidth h) (naturalHeight h) fw fh = (tw, th)"
  shows "called ''ctx'' ''drawImage'' (take 10 (exportBanner_p0 h fw fh)) =
     [[VObj ''img'', VNum (Num 0), VNum (Num 0), VNum tw, VNum th]]"
  unfolding exportBanner_p0_background [OF assms]
  by (simp add: createCanvas_def loadImage_def)

text \<open>
  C2, as the code has it. The background is the first thing drawn after the image has
  loaded. In \<open>src/js/export.js\<close> its source rectangle is cropped about the centre to
  the aspect ratio of the target as soon as at least one fixed dimension is given (both,
  or exactly one): the crop has the aspect ratio of the target, lies inside the image,
  is centred, and touches one axis only; with neither dimension given the whole image is
  the source. In \<open>src/unnamed/part_000\<close> the whole image is drawn onto the target in
  every branch.
\<close>

theorem source_rectangle_of_background:
  assumes "imgLoad h = Loaded"
    and "0 < naturalWidth h" "0 < naturalHeight h"
    and "exportSize (previewRect h) (naturalWidth h) (naturalHeight h) fw fh = (Num ew, Num eh)"
    and "targetSize (previewRect h) (naturalWidth h) (naturalHeight h) fw fh = (tw, th)"
    and "0 < ew" "0 < eh"
    and "centredCrop (real (naturalWidth h)) (real (naturalHeight h)) (ew / eh) = (sx, sy, sw, sh)"
  shows "called ''ctx'' ''drawImage'' (take 10 (exportBanner h fw fh)) =
          (if truthy (js_or fw fh)
           then [[VObj ''img'', VNum (Num sx), VNum (Num sy), VNum (Num sw), VNum (Num sh),
                  VNum (Num 0), VNum (Num 0), VNum (Num ew), VNum (Num eh)]]
           else [[VObj ''img'', VNum (Num 0), VNum (Num 0),
                  VNum (Num (real (naturalWidth h))), VNum (Num (real (naturalHeight h))),
                  VNum (Num 0), VNum (Num 0), VNum (Num ew), VNum (Num eh)]])
         \<and> sw / sh = ew / eh \<and> sx = (real (naturalWidth h) - sw) / 2
         \<and> sy = (real (naturalHeight h) - sh) / 2
         \<and> 0 \<le> sx \<and> 0 \<le> sy \<and> 0 < sw \<and> 0 < sh \<and> (sx = 0 \<or> sy = 0)
         \<and> called ''ctx'' ''drawImage'' (take 10 (exportBanner_p0 h fw fh)) =
             [[VObj ''img'', VNum (Num 0), VNum (Num 0), VNum tw, VNum th]]"
proof -
  have fits: "sw / sh = ew / eh \<and> sx = (real (naturalWidth h) - sw) / 2
      \<and> sy = (real (naturalHeight h) - sh) / 2
      \<and> 0 \<le> sx \<and> 0 \<le> sy \<and> 0 < sw \<and> 0 < sh \<and> (sx = 0 \<or> sy = 0)"
    using assms by (intro centredCrop_fits) simp_all
  have crop: "sourceCrop (naturalWidth h) (naturalHeight h) fw fh (Num ew) (Num eh) =
      (if truthy (js_or fw fh) then (Num sx, Num sy, Num sw, Num sh)
       else (Num 0, Num 0, Num (real (naturalWidth h)), Num (real (naturalHeight h))))"
    using assms by (simp add: sourceCrop_centred sourceCrop_whole Nums4_def)
  show ?thesis
    using fits drawImage_exportBanner [OF assms(1) assms(4)]
      drawImage_exportBanner_p0 [OF assms(1) assms(5)]
    by (simp add: crop)
qed

theorem source_rectangle_of_background_witness:
  "called ''ctx'' ''drawImage'' (take 10 (exportBanner sample_host (Number (Num 600)) (Number (Num 600))))
     = [[VObj ''img'', VNum (Num 200), VNum (Num 0), VNum (Num 800), VNum (Num 800),
         VNum (Num 0), VNum (Num 0), VNum (Num 600), VNum (Num 600)]]
   \<and> called ''ctx'' ''drawImage''
       (take 10 (exportBanner_p0 sample_host (Number (Num 600)) (Number (Num 600))))
     = [[VObj ''img'', VNum (Num 0), VNum (Num 0), VNum (Num 600), VNum (Num 600)]]"
  using source_rectangle_of_background
    [where h = sample_host and fw = "Number (Num 600)" and fh = "Number (Num 600)"
       and ew = 600 and eh = 600 and tw = "Num 600" and th = "Num 600"
       and sx = 200 and sy = 0 and sw = 800 and sh = 800]
  by (simp add: sample_host_def exportSize_def targetSize_def js_and_def js_or_def
      centredCrop_def)

text \<open>
  Against C2 as stated: with only \<open>fixWidth = 600\<close> on the 1200 by 800 image under the
  2:1 preview, \<open>src/js/export.js\<close> crops the source to the rows 100 to 700; with both
  dimensions fixed to 600, \<open>src/unnamed/part_000\<close> draws the whole image and crops
  nothing.
\<close>

theorem source_rectangle_counterexample:
  "called ''ctx'' ''drawImage'' (take 10 (exportBanner sample_host (Number (Num 600)) Null))
     = [[VObj ''img'', VNum (Num 0), VNum (Num 100), VNum (Num 1200), VNum (Num 600),
         VNum (Num 0), VNum (Num 0), VNum (Num 1200), VNum (Num 600)]]
   \<and> called ''ctx'' ''drawImage''
       (take 10 (exportBanner_p0 sample_host (Number (Num 600)) (Number (Num 600))))
     = [[VObj ''img'', VNum (Num 0), VNum (Num 0), VNum (Num 600), VNum (Num 600)]]"
proof -
  have l: "imgLoad sample_host = Loaded" by (simp add: sample_host_def)
  have e: "exportSize (previewRect sample_host) (naturalWidth sample_host)
       (naturalHeight sample_host) (Number (Num 600)) Null = (Num 1200, Num 600)"
    by (simp add: sample_host_def sample_rect_def exportSize_def js_and_def js_or_def jgt_def)
  have t: "targetSize (previewRect sample_host) (naturalWidth sample_host)
       (naturalHeight sample_host) (Number (Num 600)) (Number (Num 600)) = (Num 600, Num 600)"
    by (simp add: targetSize_def js_and_def)
  have c: "sourceCrop (naturalWidth sample_host) (naturalHeight sample_host) (Number (Num 600))
       Null (Num 1200) (Num 600) = (Num 0, Num 100, Num 1200, Num 600)"
    by (simp add: sample_host_def sourceCrop_def js_or_def jgt_def jsub_def)
  show ?thesis
    using drawImage_exportBanner [OF l e] drawImage_exportBanner_p0 [OF l t]
    by (simp add: c)
qed

section \<open>The order of the painting calls\<close>

lemma draws_roundRect [simp]: "draws (roundRect c x y w e r) = []"
  by (simp add: roundRect_def painting_def)

lemma draws_setup [simp]:
  "draws (createCanvas w e) = []" "draws (loadImage h) = []"
  "draws (downloadCanvas h c w e) = []"
  by (simp_all add: createCanvas_def loadImage_def downloadCanvas_def painting_def)

lemma draws_drawBackground: "draws (drawBackground h fw fh w e) = [(''ctx'', ''drawImage'', ''img'')]"
  by (simp add: drawBackground_def painting_def split: prod.splits)

lemma draws_backdropBlur:
  "draws (backdropBlur h s ew eh box) =
     (''blurCtx'', ''drawImage'', ''canvas'')
     # (if StackBlur_defined h then [(''StackBlur'', ''canvasRGB'', ''blurCanvas'')] else [])
     @ [(''blurCtx'', ''putImageData'', [])]"
  by (cases box) (simp add: backdropBlur_def painting_def Let_def)

lemma draws_blurredBackdrop:
  "draws (blurredBackdrop h s ew eh box) =
     (''blurCtx'', ''drawImage'', ''canvas'')
     # (if StackBlur_defined h then [(''StackBlur'', ''canvasRGB'', ''blurCanvas'')] else [])
     @ [(''blurCtx'', ''putImageData'', [])]"
  by (cases box) (simp add: blurredBackdrop_def painting_def Let_def)

lemma draws_drawCard:
  "draws (drawCard h s ew eh) =
     (''blurCtx'', ''drawImage'', ''canvas'')
     # (if StackBlur_defined h then [(''StackBlur'', ''canvasRGB'', ''blurCanvas'')] else [])
     @ [(''blurCtx'', ''putImageData'', []), (''ctx'', ''drawImage'', ''blurCanvas''),
        (''ctx'', ''fill'', []), (''ctx'', ''fill'', []), (''ctx'', ''fill'', []),
        (''ctx'', ''fill'', []),
        (''noiseCtx'', ''putImageData'', []), (''ctx'', ''drawImage'', ''noiseCanvas''),
        (''ctx'', ''stroke'', []), (''ctx'', ''fillRect'', [])]"
  by (cases "cardBox h ew eh")
     (simp add: drawCard_def Let_def draws_backdropBlur drawBlurred_def cardShadows_def
       shadowFill_def shadowLayers_def gradientOverlay_def noiseOverlay_def
       createNoiseTexture_def insetHighlights_def painting_def)

lemma draws_drawCard_p0:
  "draws (drawCard_p0 h s ew eh) =
     (''blurCtx'', ''drawImage'', ''canvas'')
     # (if StackBlur_defined h then [(''StackBlur'', ''canvasRGB'', ''blurCanvas'')] else [])
     @ [(''blurCtx'', ''putImageData'', []),
        (''ctx'', ''fill'', []), (''ctx'', ''fill'', []), (''ctx'', ''fill'', []),
        (''ctx'', ''fill'', []), (''ctx'', ''fill'', []), (''ctx'', ''fill'', []),
        (''ctx'', ''fill'', []), (''ctx'', ''fill'', []), (''ctx'', ''fill'', []),
        (''cardCtx'', ''drawImage'', ''blurCanvas''), (''cardCtx'', ''fillRect'', []),
        (''ctx'', ''drawImage'', ''cardCanvas''),
        (''ctx'', ''stroke'', []), (''ctx'', ''fillRect'', []),
        (''noiseCtx'', ''putImageData'', []), (''ctx'', ''drawImage'', ''noiseCanvas'')]"
  by (cases "cardBox h ew eh")
     (simp add: drawCard_p0_def Let_def draws_blurredBackdrop boxShadows_def
       drawShadow_def shadows_def cardContent_def clipAndDraw_def insetHighlights_p0_def
       noiseOverlay_p0_def replicate3 painting_def)

lemma draws_drawText:
  "draws (drawText h s box) =
     [(''ctx'', ''fillText'', []), (''ctx'', ''fillText'', []), (''ctx'', ''fillText'', []),
      (''ctx'', ''fillText'', [])]"
  by (cases box) (simp add: drawText_def textPass_def painting_def Let_def)

lemma draws_drawText_p0:
  "draws (drawText_p0 h s box r) =
     [(''ctx'', ''fillText'', []), (''ctx'', ''fillText'', []), (''ctx'', ''fillText'', []),
      (''ctx'', ''fillText'', [])]"
  by (cases box) (simp add: drawText_p0_def painting_def Let_def split: prod.splits)

lemma draws_exportBanner:
  "imgLoad h = Loaded \<Longrightarrow>
   draws (exportBanner h fw fh) =
     (''ctx'', ''drawImage'', ''img'') # draws (drawCard h s ew eh)
     @ [(''ctx'', ''fillText'', []), (''ctx'', ''fillText'', []), (''ctx'', ''fillText'', []),
        (''ctx'', ''fillText'', [])]"
  by (simp add: exportBanner_def Let_def draws_drawBackground draws_drawCard draws_drawText
      split: prod.splits)

lemma draws_exportBanner_p0:
  "imgLoad h = Loaded \<Longrightarrow>
   draws (exportBanner_p0 h fw fh) =
     (''ctx'', ''drawImage'', ''img'') # draws (drawCard_p0 h s ew eh)
     @ [(''ctx'', ''fillText'', []), (''ctx'', ''fillText'', []), (''ctx'', ''fillText'', []),
        (''ctx'', ''fillText'', [])]"
  by (simp add: exportBanner_p0_def Let_def draws_drawCard_p0 draws_drawText_p0 painting_def
      split: prod.splits)

lemmas op_defs =
  comes_after_def noise_composite_def border_stroke_def highlight_band_def shadow_fill_def
  card_composite_def

text \<open>
  C3, as the code has it. With the image loaded, the painting calls of an export come in
  one fixed order, whatever the input (the blur is there when \<open>StackBlur\<close> is defined).
  In \<open>src/js/export.js\<close>: background; backdrop sample, blur, saturation, clipped
  composite of the backdrop, three shadow fills, gradient fill, noise buffer and noise
  composite, border stroke, highlight band; four text fills. The noise comes before the
  border stroke and the highlight band. In \<open>src/unnamed/part_000\<close>: background;
  backdrop sample, blur, saturation, nine shadow fills, backdrop and gradient on the
  card canvas, clipped composite of the card canvas, border stroke, highlight band, noise
  buffer and noise composite; four text fills. There the noise composite is the last
  painting call of the card, after the border stroke and the highlight band.
\<close>

theorem card_painting_order:
  assumes "imgLoad h = Loaded"
  shows "draws (exportBanner h fw fh) =
           [(''ctx'', ''drawImage'', ''img''), (''blurCtx'', ''drawImage'', ''canvas'')]
           @ (if StackBlur_defined h then [(''StackBlur'', ''canvasRGB'', ''blurCanvas'')] else [])
           @ [(''blurCtx'', ''putImageData'', []), (''ctx'', ''drawImage'', ''blurCanvas''),
              shadow_fill, shadow_fill, shadow_fill, (''ctx'', ''fill'', []),
              (''noiseCtx'', ''putImageData'', []), noise_composite,
              border_stroke, highlight_band,
              (''ctx'', ''fillText'', []), (''ctx'', ''fillText'', []),
              (''ctx'', ''fillText'', []), (''ctx'', ''fillText'', [])]
         \<and> comes_after border_stroke noise_composite (draws (exportBanner h fw fh))
         \<and> comes_after highlight_band noise_composite (draws (exportBanner h fw fh))
         \<and> draws (exportBanner_p0 h fw fh) =
           [(''ctx'', ''drawImage'', ''img''), (''blurCtx'', ''drawImage'', ''canvas'')]
           @ (if StackBlur_defined h then [(''StackBlur'', ''canvasRGB'', ''blurCanvas'')] else [])
           @ [(''blurCtx'', ''putImageData'', []),
              shadow_fill, shadow_fill, shadow_fill, shadow_fill, shadow_fill, shadow_fill,
              shadow_fill, shadow_fill, shadow_fill,
              (''cardCtx'', ''drawImage'', ''blurCanvas''), (''cardCtx'', ''fillRect'', []),
              card_composite, border_stroke, highlight_band,
              (''noiseCtx'', ''putImageData'', []), noise_composite,
              (''ctx'', ''fillText'', []), (''ctx'', ''fillText'', []),
              (''ctx'', ''fillText'', []), (''ctx'', ''fillText'', [])]
         \<and> comes_after noise_composite border_stroke (draws (exportBanner_p0 h fw fh))
         \<and> comes_after noise_composite highlight_band (draws (exportBanner_p0 h fw fh))
         \<and> drop 1 (dropWhile (\<lambda>x. x \<noteq> noise_composite) (draws (exportBanner_p0 h fw fh))) =
             [(''ctx'', ''fillText'', []), (''ctx'', ''fillText'', []),
              (''ctx'', ''fillText'', []), (''ctx'', ''fillText'', [])]"
  using assms
  by (simp add: draws_exportBanner [of h fw fh "Num 0" "Num 0" "Num 0"]
      draws_exportBanner_p0 [of h fw fh "Num 0" "Num 0" "Num 0"]
      draws_drawCard draws_drawCard_p0 op_defs)

theorem card_painting_order_witness:
  "draws (exportBanner sample_host Null Null) =
     [(''ctx'', ''drawImage'', ''img''), (''blurCtx'', ''drawImage'', ''canvas''),
      (''StackBlur'', ''canvasRGB'', ''blurCanvas''),
      (''blurCtx'', ''putImageData'', []), (''ctx'', ''drawImage'', ''blurCanvas''),
      (''ctx'', ''fill'', []), (''ctx'', ''fill'', []), (''ctx'', ''fill'', []),
      (''ctx'', ''fill'', []),
      (''noiseCtx'', ''putImageData'', []), (''ctx'', ''drawImage'', ''noiseCanvas''),
      (''ctx'', ''stroke'', []), (''ctx'', ''fillRect'', []),
      (''ctx'', ''fillText'', []), (''ctx'', ''fillText'', []),
      (''ctx'', ''fillText'', []), (''ctx'', ''fillText'', [])]
   \<and> comes_after noise_composite border_stroke (draws (exportBanner_p0 sample_host Null Null))"
proof -
  have l: "imgLoad sample_host = Loaded" "StackBlur_defined sample_host"
    by (simp_all add: sample_host_def)
  show ?thesis
    using card_painting_order [OF l(1), of Null Null]
    by (simp add: l(2) op_defs)
qed

text \<open>
  Against C3 as stated: in \<open>src/js/export.js\<close> the noise composite does not come after
  the border stroke, nor after the highlight band; and in \<open>src/unnamed/part_000\<close> the
  composite of the card (step 4) does not come before the shadow fills (step 5).
\<close>

theorem card_painting_order_counterexample:
  "\<not> comes_after noise_composite border_stroke (draws (exportBanner sample_host Null Null))
   \<and> \<not> comes_after noise_composite highlight_band (draws (exportBanner sample_host Null Null))
   \<and> \<not> comes_after shadow_fill card_composite (draws (exportBanner_p0 sample_host Null Null))"
proof -
  have l: "imgLoad sample_host = Loaded" "StackBlur_defined sample_host"
    by (simp_all add: sample_host_def)
  show ?thesis
    by (simp add: draws_exportBanner [OF l(1), of Null Null "Num 0" "Num 0" "Num 0"]
        draws_exportBanner_p0 [OF l(1), of Null Null "Num 0" "Num 0" "Num 0"]
        draws_drawCard draws_drawCard_p0 l op_defs)
qed

section \<open>The shadow of the card\<close>

lemma fills_inert:
  "list_all inert xs \<Longrightarrow> fills pen saved path (xs @ ys) = fills pen saved path ys"
proof (induction xs)
  case Nil
  then show ?case by simp
next
  case (Cons e xs)
  then show ?case by (cases e) (auto simp: path_calls_def)
qed

lemma fills_none: "list_all no_fill ys \<Longrightarrow> fills pen saved path ys = []"
proof (induction ys arbitrary: pen saved path)
  case Nil
  then show ?case by simp
next
  case (Cons e ys)
  then show ?case by (cases e) (auto split: list.splits)
qed

lemma fills_no_fill:
  "list_all no_fill ys \<Longrightarrow> fills pen saved path (xs @ ys) = fills pen saved path xs"
proof (induction xs arbitrary: pen saved path)
  case Nil
  then show ?case by (simp add: fills_none)
next
  case (Cons e xs)
  then show ?case by (cases e) (auto split: list.splits)
qed

lemma fills_drawCard:
  "fills Map.empty [] [] (drawCard h s ew eh) =
     [(outline (cardBox h ew eh) (jmul (parseFloat h (cardStyle h ''border-radius'')) s),
       Some (VTmpl [VStr (js ''rgba(10, 10, 10, ''), VNum (Num 0.1), VStr (js '')'')]),
       Some (VNum (jmul (Num 4) s)), Some (VNum (jmul (Num 2) s)),
       Some (VStr (js ''rgba(0, 0, 0, 0.01)''))),
      (outline (cardBox h ew eh) (jmul (parseFloat h (cardStyle h ''border-radius'')) s),
       Some (VTmpl [VStr (js ''rgba(10, 10, 10, ''), VNum (Num 0.2), VStr (js '')'')]),
       Some (VNum (jmul (Num 16) s)), Some (VNum (jmul (Num 8) s)),
       Some (VStr (js ''rgba(0, 0, 0, 0.01)''))),
      (outline (cardBox h ew eh) (jmul (parseFloat h (cardStyle h ''border-radius'')) s),
       Some (VTmpl [VStr (js ''rgba(10, 10, 10, ''), VNum (Num 0.3), VStr (js '')'')]),
       Some (VNum (jmul (Num 48) s)), Some (VNum (jmul (Num 16) s)),
       Some (VStr (js ''rgba(0, 0, 0, 0.01)''))),
      (outline (cardBox h ew eh) (jmul (parseFloat h (cardStyle h ''border-radius'')) s),
       None, None, None, Some (VObj ''gradient''))]"
  by (cases "cardBox h ew eh")
     (simp add: drawCard_def Let_def backdropBlur_def drawBlurred_def cardShadows_def
       shadowFill_def shadowLayers_def gradientOverlay_def noiseOverlay_def
       createNoiseTexture_def insetHighlights_def roundRect_def outline_def path_calls_def)

lemma fills_drawCard_p0:
  "fills Map.empty [] [] (drawCard_p0 h s ew eh) =
     three_layers
       (outline_p0 (cardBox h ew eh)
          (jmul (parseFloat h (getComputed (cardStyle h) ''border-radius'')) s)) s
     @ three_layers
       (outline_p0 (cardBox h ew eh)
          (jmul (parseFloat h (getComputed (cardStyle h) ''border-radius'')) s)) s
     @ three_layers
       (outline_p0 (cardBox h ew eh)
          (jmul (parseFloat h (getComputed (cardStyle h) ''border-radius'')) s)) s"
  by (cases "cardBox h ew eh")
     (simp add: drawCard_p0_def Let_def blurredBackdrop_def boxShadows_def
       drawShadow_def shadows_def cardContent_def clipAndDraw_def insetHighlights_p0_def
       noiseOverlay_p0_def replicate3 outline_p0_def three_layers_def path_calls_def)

lemma inert_prefix:
  "list_all inert (createCanvas ew eh @ loadImage h @ drawBackground h fw fh ew eh)"
  "list_all inert
     (createCanvas ew eh @ loadImage h
      @ [Call ''ctx'' ''drawImage'' [VObj ''img'', VNum (Num 0), VNum (Num 0), VNum ew, VNum eh]])"
  by (simp_all add: createCanvas_def loadImage_def drawBackground_def path_calls_def
      split: prod.splits)

lemma no_fill_suffix:
  "list_all no_fill (drawText h s box @ downloadCanvas h c ew eh)"
  "list_all no_fill (drawText_p0 h s box r @ downloadCanvas h c ew eh)"
  by (cases box; simp add: drawText_def textPass_def drawText_p0_def downloadCanvas_def Let_def
      split: prod.splits)+

lemma fills_exportBanner:
  assumes "imgLoad h = Loaded"
    and "exportSize (previewRect h) (naturalWidth h) (naturalHeight h) fw fh = (ew, eh)"
  shows "fills Map.empty [] [] (exportBanner h fw fh) =
         fills Map.empty [] [] (drawCard h (jdiv ew (rect_width (previewRect h))) ew eh)"
proof -
  have "exportBanner h fw fh =
      (createCanvas ew eh @ loadImage h @ drawBackground h fw fh ew eh)
      @ drawCard h (jdiv ew (rect_width (previewRect h))) ew eh
      @ (drawText h (jdiv ew (rect_width (previewRect h))) (cardBox h ew eh)
         @ downloadCanvas h ''canvas'' ew eh)"
    using assms by (simp add: exportBanner_def Let_def)
  then show ?thesis
    by (simp only: fills_inert [OF inert_prefix(1)] fills_no_fill [OF no_fill_suffix(1)])
qed

lemma fills_exportBanner_p0:
  assumes "imgLoad h = Loaded"
    and "targetSize (previewRect h) (naturalWidth h) (naturalHeight h) fw fh = (tw, th)"
  shows "fills Map.empty [] [] (exportBanner_p0 h fw fh) =
         fills Map.empty [] [] (drawCard_p0 h (jdiv tw (rect_width (previewRect h))) tw th)"
proof -
  have "exportBanner_p0 h fw fh =
      (createCanvas tw th @ loadImage h
       @ [Call ''ctx'' ''drawImage'' [VObj ''img'', VNum (Num 0), VNum (Num 0), VNum tw, VNum th]])
      @ drawCard_p0 h (jdiv tw (rect_width (previewRect h))) tw th
      @ (drawText_p0 h (jdiv tw (rect_width (previewRect h))) (cardBox h tw th)
           (jmul (parseFloat h (getComputed (cardStyle h) ''border-radius''))
              (jdiv tw (rect_width (previewRect h))))
         @ downloadCanvas h ''canvas'' tw th)"
    using assms by (simp add: exportBanner_p0_def Let_def)
  then show ?thesis
    by (simp only: fills_inert [OF inert_prefix(2)] fills_no_fill [OF no_fill_suffix(2)])
qed

text \<open>
  C4, as the code has it. In every export whose image loads, the shadow of the card comes
  from three layers, (blur \<open>4 * scale\<close>, offset \<open>2 * scale\<close>, alpha 0.1),
  (\<open>16 * scale\<close>, \<open>8 * scale\<close>, 0.2) and (\<open>48 * scale\<close>, \<open>16 * scale\<close>, 0.3), of the
  colour rgb(10, 10, 10), each a fill of the rounded rectangle of the card with an almost
  transparent fill style. \<open>src/js/export.js\<close> fills each layer once, with
  \<open>rgba(0, 0, 0, 0.01)\<close>: these are its only fills under a shadow, and the one other
  fill, of the gradient, has none. \<open>src/unnamed/part_000\<close> goes three times through
  the three layers, nine fills in all, with \<open>rgba(255, 255, 255, 0.02)\<close>.
\<close>

theorem card_shadow_fills:
  assumes "imgLoad h = Loaded"
    and "exportSize (previewRect h) (naturalWidth h) (naturalHeight h) fw fh = (ew, eh)"
    and "targetSize (previewRect h) (naturalWidth h) (naturalHeight h) fw fh = (tw, th)"
    and "scale = jdiv ew (rect_width (previewRect h))"
    and "scale_p0 = jdiv tw (rect_width (previewRect h))"
    and "path = outline (cardBox h ew eh) (jmul (parseFloat h (cardStyle h ''border-radius'')) scale)"
    and "path_p0 = outline_p0 (cardBox h tw th)
           (jmul (parseFloat h (getComputed (cardStyle h) ''border-radius'')) scale_p0)"
  shows "fills Map.empty [] [] (exportBanner h fw fh) =
           [(path, Some (VTmpl [VStr (js ''rgba(10, 10, 10, ''), VNum (Num 0.1), VStr (js '')'')]),
             Some (VNum (jmul (Num 4) scale)), Some (VNum (jmul (Num 2) scale)),
             Some (VStr (js ''rgba(0, 0, 0, 0.01)''))),
            (path, Some (VTmpl [VStr (js ''rgba(10, 10, 10, ''), VNum (Num 0.2), VStr (js '')'')]),
             Some (VNum (jmul (Num 16) scale)), Some (VNum (jmul (Num 8) scale)),
             Some (VStr (js ''rgba(0, 0, 0, 0.01)''))),
            (path, Some (VTmpl [VStr (js ''rgba(10, 10, 10, ''), VNum (Num 0.3), VStr (js '')'')]),
             Some (VNum (jmul (Num 48) scale)), Some (VNum (jmul (Num 16) scale)),
             Some (VStr (js ''rgba(0, 0, 0, 0.01)''))),
            (path, None, None, None, Some (VObj ''gradient''))]
         \<and> fills Map.empty [] [] (exportBanner_p0 h fw fh) =
           three_layers path_p0 scale_p0 @ three_layers path_p0 scale_p0
           @ three_layers path_p0 scale_p0"
  unfolding fills_exportBanner [OF assms(1,2)] fills_exportBanner_p0 [OF assms(1,3)]
    fills_drawCard fills_drawCard_p0 assms(4-7)
  by simp

theorem card_shadow_fills_witness:
  "map (\<lambda>f. fst (snd (snd f))) (fills Map.empty [] [] (exportBanner sample_host Null Null))
     = [Some (VNum (Num 12)), Some (VNum (Num 48)), Some (VNum (Num 144)), None]
   \<and> length (fills Map.empty [] [] (exportBanner_p0 sample_host Null Null)) = 9"
proof -
  have l: "imgLoad sample_host = Loaded" by (simp add: sample_host_def)
  have e: "exportSize (previewRect sample_host) (naturalWidth sample_host)
       (naturalHeight sample_host) Null Null = (Num 1200, Num 800)"
    "targetSize (previewRect sample_host) (naturalWidth sample_host)
       (naturalHeight sample_host) Null Null = (Num 1200, Num 800)"
    by (simp_all add: sample_host_def exportSize_def targetSize_def js_and_def js_or_def)
  have s: "jdiv (Num 1200) (rect_width (previewRect sample_host)) = Num 3"
    by (simp add: sample_host_def sample_rect_def)
  show ?thesis
    using card_shadow_fills [OF l e refl refl refl refl]
    by (simp add: s three_layers_def)
qed

text \<open>
  Against C4 as stated: \<open>src/unnamed/part_000\<close> fills the shadow path nine times, not
  three.
\<close>

theorem card_shadow_fills_counterexample:
  "length (fills Map.empty [] [] (exportBanner_p0 sample_host Null Null)) = 9"
proof -
  have l: "imgLoad sample_host = Loaded" by (simp add: sample_host_def)
  have e: "targetSize (previewRect sample_host) (naturalWidth sample_host)
       (naturalHeight sample_host) Null Null = (Num 1200, Num 800)"
    by (simp add: sample_host_def targetSize_def js_and_def js_or_def)
  show ?thesis
    by (simp add: fills_exportBanner_p0 [OF l e] fills_drawCard_p0 three_layers_def)
qed

section \<open>One scale factor\<close>

lemma lengths_append [simp]: "lengths (xs @ ys) = lengths xs @ lengths ys"
  by (simp add: lengths_def)

lemma paths_append [simp]: "paths (xs @ ys) = paths xs @ paths ys"
  by (induction xs rule: paths.induct) auto

lemma lengths_Nil [simp]: "lengths [] = []"
  by (simp add: lengths_def)

lemma lengths_Cons [simp]: "lengths (e # es) = length_of e @ lengths es"
  by (simp add: lengths_def)

lemma paths_roundRect [simp]: "paths (roundRect ''ctx'' x y w e r) = roundRect ''ctx'' x y w e r"
  by (simp add: roundRect_def path_calls_def)

lemma lengths_roundRect [simp]: "lengths (roundRect c x y w e r) = []"
  by (simp add: roundRect_def)

lemma lengths_setup [simp]:
  "lengths (createCanvas w e) = []" "lengths (loadImage h) = []"
  "lengths (downloadCanvas h c w e) = []" "lengths (drawBackground h fw fh w e) = []"
  by (simp_all add: createCanvas_def loadImage_def downloadCanvas_def drawBackground_def
      split: prod.splits)

lemma paths_setup [simp]:
  "paths (createCanvas w e) = []" "paths (loadImage h) = []"
  "paths (downloadCanvas h c w e) = []" "paths (drawBackground h fw fh w e) = []"
  by (simp_all add: createCanvas_def loadImage_def downloadCanvas_def
      drawBackground_def path_calls_def split: prod.splits)

lemma lengths_drawCard:
  "lengths (drawCard h s ew eh) =
     (if StackBlur_defined h then [(''blur'', Math_round (jmul (Num 12) s))] else [])
     @ [(''shadowBlur'', jmul (Num 4) s), (''shadowOffsetY'', jmul (Num 2) s),
        (''shadowBlur'', jmul (Num 16) s), (''shadowOffsetY'', jmul (Num 8) s),
        (''shadowBlur'', jmul (Num 48) s), (''shadowOffsetY'', jmul (Num 16) s),
        (''shadowBlur'', Num 0), (''shadowOffsetY'', Num 0),
        (''band'', jmul (Num 12) s)]"
  by (cases "cardBox h ew eh")
     (simp add: drawCard_def Let_def backdropBlur_def blurRadius_def drawBlurred_def
       cardShadows_def shadowFill_def shadowLayers_def gradientOverlay_def noiseOverlay_def
       createNoiseTexture_def insetHighlights_def)

lemma paths_drawCard:
  "cardBox h ew eh = (x, y, w, e) \<Longrightarrow>
   paths (drawCard h s ew eh) =
     concat (replicate 6
       (roundRect ''ctx'' x y w e (jmul (parseFloat h (cardStyle h ''border-radius'')) s)))"
  by (simp add: drawCard_def Let_def backdropBlur_def drawBlurred_def cardShadows_def
      shadowFill_def shadowLayers_def gradientOverlay_def noiseOverlay_def
      createNoiseTexture_def insetHighlights_def path_calls_def eval_nat_numeral)

lemma lengths_drawText:
  "lengths (drawText h s box) =
     [(''font-size'', jmul (parseFloat h (txtStyle h ''font-size'')) s),
      (''shadowBlur'', jmul (Num 5) s), (''shadowOffsetY'', jmul (Num (- 2)) s),
      (''shadowBlur'', jmul (Num 0.5) s), (''shadowOffsetY'', jmul (Num (- 1)) s),
      (''shadowBlur'', jmul (Num 2) s), (''shadowOffsetY'', jmul (Num 1) s)]"
  by (cases box) (simp add: drawText_def textPass_def Let_def)

lemma paths_drawText: "paths (drawText h s box) = []"
  by (cases box) (simp add: drawText_def textPass_def Let_def path_calls_def)

lemma lengths_drawCard_p0:
  "lengths (drawCard_p0 h s ew eh) =
     (if StackBlur_defined h then [(''blur'', Math_round (jmul (Num 12) s))] else [])
     @ layer_lengths s (jmul (parseFloat h (getComputed (cardStyle h) ''border-radius'')) s)
     @ layer_lengths s (jmul (parseFloat h (getComputed (cardStyle h) ''border-radius'')) s)
     @ layer_lengths s (jmul (parseFloat h (getComputed (cardStyle h) ''border-radius'')) s)
     @ [(''radius'', jmul (parseFloat h (getComputed (cardStyle h) ''border-radius'')) s),
        (''radius'', jmul (parseFloat h (getComputed (cardStyle h) ''border-radius'')) s),
        (''band'', jmul (Num 12) s)]"
  by (cases "cardBox h ew eh")
     (simp add: drawCard_p0_def Let_def blurredBackdrop_def boxShadows_def
       drawShadow_def shadows_def cardContent_def clipAndDraw_def insetHighlights_p0_def
       noiseOverlay_p0_def replicate3 layer_lengths_def)

lemma lengths_drawText_p0:
  "lengths (drawText_p0 h s box r) =
     [(''radius'', r),
      (''font-size'', jmul (parseFloat h (getComputed (txtStyle h) ''font-size'')) s),
      (''shadowBlur'', jmul (Num 5) s), (''shadowOffsetY'', jmul (Num (- 2)) s),
      (''shadowBlur'', jmul (Num 0.5) s), (''shadowOffsetY'', jmul (Num (- 1)) s),
      (''shadowBlur'', jmul (Num 2) s), (''shadowOffsetY'', jmul (Num 1) s),
      (''shadowBlur'', Num 0), (''shadowOffsetY'', Num 0)]"
  by (cases box) (simp add: drawText_p0_def Let_def split: prod.splits)

text \<open>
  C5. In both versions there is one scale factor, the width of the target over the width
  of the preview, and every length that the export hands to the canvas is an on-screen
  constant or style value times this factor: the blur radius (12, rounded to an integer
  for \<open>StackBlur\<close>), the blurs and offsets of the three card shadows (4 and 2, 16 and 8,
  48 and 16), the height of the highlight band (12), the font size, the blurs and offsets
  of the text shadows (5 and -2, 0.5 and -1, 2 and 1), and the corner radius of every
  path of the card. The remaining entries are the resets of the shadow to 0.
\<close>

theorem lengths_use_one_scale_factor:
  assumes "imgLoad h = Loaded"
    and "exportSize (previewRect h) (naturalWidth h) (naturalHeight h) fw fh = (ew, eh)"
    and "targetSize (previewRect h) (naturalWidth h) (naturalHeight h) fw fh = (tw, th)"
    and "scale = jdiv ew (rect_width (previewRect h))"
    and "scale_p0 = jdiv tw (rect_width (previewRect h))"
    and "cardBox h ew eh = (x, y, w, e)"
    and "radius = jmul (parseFloat h (cardStyle h ''border-radius'')) scale"
    and "radius_p0 = jmul (parseFloat h (getComputed (cardStyle h) ''border-radius'')) scale_p0"
  shows "lengths (exportBanner h fw fh) =
           (if StackBlur_defined h then [(''blur'', Math_round (jmul (Num 12) scale))] else [])
           @ [(''shadowBlur'', jmul (Num 4) scale), (''shadowOffsetY'', jmul (Num 2) scale),
              (''shadowBlur'', jmul (Num 16) scale), (''shadowOffsetY'', jmul (Num 8) scale),
              (''shadowBlur'', jmul (Num 48) scale), (''shadowOffsetY'', jmul (Num 16) scale),
              (''shadowBlur'', Num 0), (''shadowOffsetY'', Num 0),
              (''band'', jmul (Num 12) scale),
              (''font-size'', jmul (parseFloat h (txtStyle h ''font-size'')) scale),
              (''shadowBlur'', jmul (Num 5) scale), (''shadowOffsetY'', jmul (Num (- 2)) scale),
              (''shadowBlur'', jmul (Num 0.5) scale), (''shadowOffsetY'', jmul (Num (- 1)) scale),
              (''shadowBlur'', jmul (Num 2) scale), (''shadowOffsetY'', jmul (Num 1) scale)]
         \<and> paths (exportBanner h fw fh) = concat (replicate 6 (roundRect ''ctx'' x y w e radius))
         \<and> lengths (exportBanner_p0 h fw fh) =
           (if StackBlur_defined h then [(''blur'', Math_round (jmul (Num 12) scale_p0))] else [])
           @ layer_lengths scale_p0 radius_p0 @ layer_lengths scale_p0 radius_p0
           @ layer_lengths scale_p0 radius_p0
           @ [(''radius'', radius_p0), (''radius'', radius_p0),
              (''band'', jmul (Num 12) scale_p0),
              (''radius'', radius_p0),
              (''font-size'',
               jmul (parseFloat h (getComputed (txtStyle h) ''font-size'')) scale_p0),
              (''shadowBlur'', jmul (Num 5) scale_p0),
              (''shadowOffsetY'', jmul (Num (- 2)) scale_p0),
              (''shadowBlur'', jmul (Num 0.5) scale_p0),
              (''shadowOffsetY'', jmul (Num (- 1)) scale_p0),
              (''shadowBlur'', jmul (Num 2) scale_p0),
              (''shadowOffsetY'', jmul (Num 1) scale_p0),
              (''shadowBlur'', Num 0), (''shadowOffsetY'', Num 0)]"
  using assms(1-3,6)
  unfolding assms(4,5,7,8)
  by (simp add: exportBanner_def exportBanner_p0_def Let_def lengths_drawCard lengths_drawText
      paths_drawCard paths_drawText lengths_drawCard_p0 lengths_drawText_p0)

theorem lengths_use_one_scale_factor_witness:
  "lengths (exportBanner sample_host (Number (Num 600)) Null) =
     [(''blur'', Num 36),
      (''shadowBlur'', Num 12), (''shadowOffsetY'', Num 6),
      (''shadowBlur'', Num 48), (''shadowOffsetY'', Num 24),
      (''shadowBlur'', Num 144), (''shadowOffsetY'', Num 48),
      (''shadowBlur'', Num 0), (''shadowOffsetY'', Num 0),
      (''band'', Num 36), (''font-size'', Num 72),
      (''shadowBlur'', Num 15), (''shadowOffsetY'', Num (- 6)),
      (''shadowBlur'', Num (3 / 2)), (''shadowOffsetY'', Num (- 3)),
      (''shadowBlur'', Num 6), (''shadowOffsetY'', Num 3)]
   \<and> paths (exportBanner sample_host (Number (Num 600)) Null) =
       concat (replicate 6 (roundRect ''ctx'' (Num 300) (Num 150) (Num 600) (Num 300) (Num 48)))"
proof -
  have l: "imgLoad sample_host = Loaded" by (simp add: sample_host_def)
  have e: "exportSize (previewRect sample_host) (naturalWidth sample_host)
       (naturalHeight sample_host) (Number (Num 600)) Null = (Num 1200, Num 600)"
    "targetSize (previewRect sample_host) (naturalWidth sample_host)
       (naturalHeight sample_host) (Number (Num 600)) Null = (Num 1200, Num 600)"
    by (simp_all add: sample_host_def sample_rect_def exportSize_def targetSize_def js_and_def
        js_or_def jgt_def)
  have b: "cardBox sample_host (Num 1200) (Num 600) = (Num 300, Num 150, Num 600, Num 300)"
    by (simp add: cardBox_def sample_host_def sample_rect_def jsub_def)
  have s: "jdiv (Num 1200) (rect_width (previewRect sample_host)) = Num 3"
    "StackBlur_defined sample_host"
    "parseFloat sample_host (cardStyle sample_host ''border-radius'') = Num 16"
    "parseFloat sample_host (txtStyle sample_host ''font-size'') = Num 24"
    by (simp_all add: sample_host_def sample_rect_def js_def)
  show ?thesis
    using lengths_use_one_scale_factor [OF l e refl refl b refl refl]
    by (simp add: s)
qed

end
